theory Spec2Isabelle
  imports Main "HOL-Library.AList"
begin

section \<open>JavaScript values and objects\<close>

text \<open>
  The generator builds plain JavaScript objects. A value is modelled by \<open>jsval\<close>; an object is
  the list of its own enumerable properties in insertion order (an association list whose keys
  are distinct). \<open>JUndefined\<close> is a value of its own: a property can be present and hold it,
  which is what \<open>omitBy(_, isUndefined)\<close> removes. Numbers are copied and compared only, and
  are modelled by integers.
\<close>

datatype jsval =
    JUndefined
  | JNull
  | JBool bool
  | JNum int
  | JStr string
  | JArr "jsval list"
  | JObj "(string \<times> jsval) list"

type_synonym obj = "(string \<times> jsval) list"

text \<open>Truthiness of a value, as \<open>!v\<close>, \<open>!!v\<close>, \<open>a && b\<close> and \<open>c ? a : b\<close> test it.\<close>

fun truthy :: "jsval \<Rightarrow> bool" where
  "truthy JUndefined = False"
| "truthy JNull = False"
| "truthy (JBool b) = b"
| "truthy (JNum n) = (n \<noteq> 0)"
| "truthy (JStr s) = (s \<noteq> [])"
| "truthy (JArr xs) = True"
| "truthy (JObj ps) = True"

text \<open>The \<open>typeof\<close> operator on the values of the model.\<close>

fun typeof :: "jsval \<Rightarrow> string" where
  "typeof JUndefined = ''undefined''"
| "typeof JNull = ''object''"
| "typeof (JBool b) = ''boolean''"
| "typeof (JNum n) = ''number''"
| "typeof (JStr s) = ''string''"
| "typeof (JArr xs) = ''object''"
| "typeof (JObj ps) = ''object''"

text \<open>Reading a property: \<open>o.k\<close> is \<open>undefined\<close> when the object has no such property.\<close>

definition get_prop :: "obj \<Rightarrow> string \<Rightarrow> jsval" where
  "get_prop ob k = (case map_of ob k of None \<Rightarrow> JUndefined | Some v \<Rightarrow> v)"

text \<open>Optional chaining \<open>o?.k\<close> on an object that may be \<open>undefined\<close>.\<close>

definition opt_prop :: "obj option \<Rightarrow> string \<Rightarrow> jsval" where
  "opt_prop ob k = (case ob of None \<Rightarrow> JUndefined | Some ps \<Rightarrow> get_prop ps k)"

text \<open>
  \<open>Object.assign(a, b)\<close>, which is also the object literal \<open>{...a, ...b}\<close> for an \<open>a\<close> with
  distinct keys: a property of \<open>b\<close> replaces the value of the same key of \<open>a\<close> in place, a new key
  is appended.
\<close>

definition assign :: "obj \<Rightarrow> obj \<Rightarrow> obj" where
  "assign a b = fold (\<lambda>p acc. AList.update (fst p) (snd p) acc) b a"

text \<open>The lodash helpers the generator imports.\<close>

definition isUndefined :: "jsval \<Rightarrow> bool" where
  "isUndefined v = (v = JUndefined)"

definition isNil :: "jsval \<Rightarrow> bool" where
  "isNil v = (v = JUndefined \<or> v = JNull)"

definition omitBy :: "obj \<Rightarrow> (jsval \<Rightarrow> bool) \<Rightarrow> obj" where
  "omitBy ob p = filter (\<lambda>kv. \<not> p (snd kv)) ob"

definition omit :: "obj \<Rightarrow> string \<Rightarrow> obj" where
  "omit ob k = filter (\<lambda>kv. fst kv \<noteq> k) ob"

definition compact :: "jsval list \<Rightarrow> jsval list" where
  "compact xs = filter truthy xs"

definition Object_values :: "obj \<Rightarrow> jsval list" where
  "Object_values ob = map snd ob"

text \<open>\<open>x ?? undefined\<close> on a value that is a number or \<open>null\<close>, and \<open>x?.value\<close>.\<close>

definition num_or_undefined :: "int option \<Rightarrow> jsval" where
  "num_or_undefined x = (case x of None \<Rightarrow> JUndefined | Some n \<Rightarrow> JNum n)"

definition str_or_undefined :: "string option \<Rightarrow> jsval" where
  "str_or_undefined x = (case x of None \<Rightarrow> JUndefined | Some s \<Rightarrow> JStr s)"

section \<open>Validation schema nodes\<close>

text \<open>
  The schema classes of the validation library that the generator tests with \<open>instanceof\<close>,
  one constructor per class, and \<open>ZodOther\<close> for every other class (with its type name).
  The first field of each is \<open>_def.openapi\<close>, the metadata object attached to the node, if any.
  An object node holds its shape in property order, an array node its element and the values
  of its \<open>minLength\<close> and \<open>maxLength\<close> checks, a native enum the enum object.
\<close>

text \<open>
  Modelled from the spec: the metadata type \<open>ZodOpenAPIMetadata\<close> and the type
  \<open>ZodNumericCheck\<close> are declared in modules that are not part of the sources. The metadata
  is an object with an optional \<open>name\<close>, \<open>description\<close> and \<open>type\<close> and any further OpenAPI
  fields; a numeric check has a kind, and the \<open>min\<close> and \<open>max\<close> checks a value and the flag
  \<open>inclusive\<close>.
\<close>

datatype UnknownKeysParam = Passthrough | Strict | Strip

datatype ZodNumericCheck =
    CheckMin int bool
  | CheckMax int bool
  | CheckOther string

datatype ZodType =
    ZodNull (openapi: "obj option")
  | ZodString (openapi: "obj option")
  | ZodNumber (openapi: "obj option") "ZodNumericCheck list"
  | ZodLiteral (openapi: "obj option") jsval
  | ZodEnum (openapi: "obj option") "string list"
  | ZodNativeEnum (openapi: "obj option") obj
  | ZodObject (openapi: "obj option") "(string \<times> ZodType) list" UnknownKeysParam
  | ZodBoolean (openapi: "obj option")
  | ZodArray (openapi: "obj option") ZodType "int option" "int option"
  | ZodUnion (openapi: "obj option") "ZodType list"
  | ZodIntersection (openapi: "obj option") ZodType ZodType
  | ZodOptional (openapi: "obj option") ZodType
  | ZodNullable (openapi: "obj option") ZodType
  | ZodOther (openapi: "obj option") string

text \<open>
  Modelled from the spec: the library's \<open>isNullable()\<close> and \<open>isOptional()\<close> are not part of
  the sources. The spec has them tell whether a nullable (an optional) wrapper is present in
  the chain of wrappers around the node.
\<close>

fun isNullable :: "ZodType \<Rightarrow> bool" where
  "isNullable (ZodNullable m z) = True"
| "isNullable (ZodOptional m z) = isNullable z"
| "isNullable z = False"

fun isOptional :: "ZodType \<Rightarrow> bool" where
  "isOptional (ZodOptional m z) = True"
| "isOptional (ZodNullable m z) = isOptional z"
| "isOptional z = False"

text \<open>
  Modelled from the spec: the library's getters \<open>minValue\<close> and \<open>maxValue\<close> of a number
  schema are not part of the sources. They read the bound off the range checks: the largest
  value of a \<open>min\<close> check, the smallest of a \<open>max\<close> check, \<open>null\<close> when there is none; whether
  the check is inclusive is not looked at.
\<close>

fun minValue :: "ZodNumericCheck list \<Rightarrow> int option \<Rightarrow> int option" where
  "minValue [] acc = acc"
| "minValue (CheckMin v i # cs) acc =
     minValue cs (case acc of None \<Rightarrow> Some v | Some m \<Rightarrow> if v > m then Some v else Some m)"
| "minValue (c # cs) acc = minValue cs acc"

fun maxValue :: "ZodNumericCheck list \<Rightarrow> int option \<Rightarrow> int option" where
  "maxValue [] acc = acc"
| "maxValue (CheckMax v i # cs) acc =
     maxValue cs (case acc of None \<Rightarrow> Some v | Some m \<Rightarrow> if v < m then Some v else Some m)"
| "maxValue (c # cs) acc = maxValue cs acc"

text \<open>\<open>unwrapOptional\<close>: the loop peels optional and nullable wrappers off.\<close>

fun unwrapOptional :: "ZodType \<Rightarrow> ZodType" where
  "unwrapOptional (ZodOptional m z) = unwrapOptional z"
| "unwrapOptional (ZodNullable m z) = unwrapOptional z"
| "unwrapOptional z = z"

text \<open>\<open>getMetadata\<close>: the node's own metadata when it has one, else the unwrapped node's.\<close>

definition getMetadata :: "ZodType \<Rightarrow> obj option" where
  "getMetadata zodSchema =
     (let innerSchema = unwrapOptional zodSchema
      in case openapi zodSchema of Some m \<Rightarrow> Some m | None \<Rightarrow> openapi innerSchema)"

text \<open>
  \<open>metadata?.name\<close>. Its declared type is \<open>string | undefined\<close>; \<open>null\<close> behaves as
  \<open>undefined\<close> in every test the generator makes of it.
\<close>

definition metadata_name :: "obj option \<Rightarrow> string option" where
  "metadata_name metadata =
     (case opt_prop metadata ''name'' of JStr s \<Rightarrow> Some s | _ \<Rightarrow> None)"

text \<open>\<open>buildMetadata\<close>: every field but \<open>name\<close>, without the \<open>null\<close> and \<open>undefined\<close> ones.\<close>

definition buildMetadata :: "obj \<Rightarrow> obj" where
  "buildMetadata metadata = omitBy (omit metadata ''name'') isNil"

text \<open>\<open>flattenUnionTypes\<close> and \<open>flattenIntersectionTypes\<close>.\<close>

fun flattenUnionTypes :: "ZodType \<Rightarrow> ZodType list" where
  "flattenUnionTypes (ZodUnion m options) = concat (map flattenUnionTypes options)"
| "flattenUnionTypes schema = [schema]"

fun flattenIntersectionTypes :: "ZodType \<Rightarrow> ZodType list" where
  "flattenIntersectionTypes (ZodIntersection m left right) =
     flattenIntersectionTypes left @ flattenIntersectionTypes right"
| "flattenIntersectionTypes schema = [schema]"

section \<open>The generator and its registries\<close>

datatype ParameterLocation = Query | Header | Path | Cookie

fun location_string :: "ParameterLocation \<Rightarrow> string" where
  "location_string Query = ''query''"
| "location_string Header = ''header''"
| "location_string Path = ''path''"
| "location_string Cookie = ''cookie''"

text \<open>
  Modelled from the spec: the type \<open>RouteConfig\<close> is declared in a module that is not part
  of the sources. A route has a method, a path, an optional description and summary, an
  optional request (with optional \<open>params\<close> and \<open>query\<close> schemas, an optional list of
  \<open>headers\<close> schemas and an optional \<open>body\<close> schema) and a response schema.
\<close>

record RouteRequest =
  params :: "ZodType option"
  query :: "ZodType option"
  headers :: "ZodType list option"
  body :: "ZodType option"

record RouteConfig =
  "method" :: string
  path :: string
  description :: "string option"
  summary :: "string option"
  request :: "RouteRequest option"
  response :: ZodType

datatype OpenAPIDefinitions =
    SchemaDef ZodType
  | ParameterDef ParameterLocation ZodType
  | RouteDef RouteConfig

text \<open>
  The generator object: its three registries, each a plain object from a name (a path) to
  an object, the definitions and the optional document configuration. Every method takes the
  generator and returns it with its result, so that what a method wrote before it threw is
  still there.
\<close>

record OpenAPIGenerator =
  schemaRefs :: "(string \<times> obj) list"
  paramRefs :: "(string \<times> obj) list"
  pathRefs :: "(string \<times> obj) list"
  definitions :: "OpenAPIDefinitions list"
  config :: "obj option"

text \<open>The errors the generator throws, named as the spec names them.\<close>

datatype error =
    ConfigMissing
  | UnnamedParameter
  | UnsupportedSchemaKind
  | InvalidDefinitionType

text \<open>
  The registries are created as \<open>{}\<close>, so \<open>this.schemaRefs[name]\<close> also finds what
  \<open>Object.prototype\<close> holds: under these names the lookup is truthy in an empty registry.
  A stored value is an object and so truthy.
\<close>

definition Object_prototype_keys :: "string list" where
  "Object_prototype_keys =
     [''constructor'', ''__defineGetter__'', ''__defineSetter__'', ''hasOwnProperty'',
      ''__lookupGetter__'', ''__lookupSetter__'', ''isPrototypeOf'', ''propertyIsEnumerable'',
      ''toString'', ''valueOf'', ''__proto__'', ''toLocaleString'']"

definition has_entry :: "(string \<times> obj) list \<Rightarrow> string \<Rightarrow> bool" where
  "has_entry reg k =
     (case map_of reg k of Some v \<Rightarrow> True | None \<Rightarrow> List.member Object_prototype_keys k)"

definition schema_ref :: "string \<Rightarrow> obj" where
  "schema_ref schemaName = [(''$ref'', JStr (''#/components/schemas/'' @ schemaName))]"

definition parameter_ref :: "string \<Rightarrow> obj" where
  "parameter_ref schemaName = [(''$ref'', JStr (''#/components/parameters/'' @ schemaName))]"

definition nullable_field :: "bool \<Rightarrow> jsval" where
  "nullable_field b = (if b then JBool True else JUndefined)"

text \<open>The number of nodes of a schema: the measure of the mapper's recursion.\<close>

fun nodes :: "ZodType \<Rightarrow> nat" where
  "nodes (ZodObject m ps uk) = 1 + sum_list (map (\<lambda>p. nodes (snd p)) ps)"
| "nodes (ZodArray m z a b) = 1 + nodes z"
| "nodes (ZodUnion m zs) = 1 + sum_list (map nodes zs)"
| "nodes (ZodIntersection m l r) = 1 + nodes l + nodes r"
| "nodes (ZodOptional m z) = 1 + nodes z"
| "nodes (ZodNullable m z) = 1 + nodes z"
| "nodes z = 1"

lemma nodes_pos: "0 < nodes z"
  by (cases z) simp_all

lemma nodes_unwrapOptional: "nodes (unwrapOptional z) \<le> nodes z"
  by (induction z rule: unwrapOptional.induct) simp_all

lemma nodes_flattenUnionTypes: "sum_list (map nodes (flattenUnionTypes z)) \<le> nodes z"
proof (induction z rule: flattenUnionTypes.induct)
  case (1 m options)
  have "sum_list (map nodes (concat (map flattenUnionTypes options)))
        \<le> sum_list (map nodes options)"
    using 1 by (induction options) (simp_all add: add_mono)
  then show ?case by simp
qed simp_all

lemma nodes_flattenIntersectionTypes:
  "sum_list (map nodes (flattenIntersectionTypes z)) \<le> nodes z"
  by (induction z rule: flattenIntersectionTypes.induct) simp_all

lemma nodes_flatten_union_less:
  "sum_list (map nodes (flattenUnionTypes (ZodUnion m options))) < nodes (ZodUnion m options)"
proof -
  have "sum_list (map nodes (concat (map flattenUnionTypes options)))
        \<le> sum_list (map nodes options)"
    by (induction options) (simp_all add: add_mono nodes_flattenUnionTypes)
  then show ?thesis by simp
qed

lemma nodes_flatten_intersection_less:
  "sum_list (map nodes (flattenIntersectionTypes (ZodIntersection m l r)))
   < nodes (ZodIntersection m l r)"
  using nodes_flattenIntersectionTypes [of l] nodes_flattenIntersectionTypes [of r] by simp

section \<open>The schema mapper\<close>

text \<open>
  \<open>generateSingleSchema\<close> and \<open>toOpenAPISchema\<close>, with the two loops of the latter:
  \<open>map_generateSingleSchema\<close> is \<open>schemas.map((schema) => this.generateSingleSchema(schema,
  saveIfNew))\<close> and \<open>mapValues_generateSingleSchema\<close> is \<open>mapValues(propTypes, (propSchema) =>
  this.generateSingleSchema(propSchema, saveIfNew))\<close>. A throw is \<open>Inl\<close>; it ends the call and
  every call around it.
\<close>

function generateSingleSchema ::
    "ZodType \<Rightarrow> bool \<Rightarrow> bool \<Rightarrow> OpenAPIGenerator \<Rightarrow> (error + obj) \<times> OpenAPIGenerator"
  and toOpenAPISchema ::
    "ZodType \<Rightarrow> bool \<Rightarrow> bool \<Rightarrow> bool \<Rightarrow> OpenAPIGenerator \<Rightarrow> (error + obj) \<times> OpenAPIGenerator"
  and map_generateSingleSchema ::
    "ZodType list \<Rightarrow> bool \<Rightarrow> OpenAPIGenerator \<Rightarrow> (error + jsval list) \<times> OpenAPIGenerator"
  and mapValues_generateSingleSchema ::
    "(string \<times> ZodType) list \<Rightarrow> bool \<Rightarrow> OpenAPIGenerator \<Rightarrow> (error + obj) \<times> OpenAPIGenerator"
where
  "generateSingleSchema zodSchema saveIfNew withMetaData this =
     (let innerSchema = unwrapOptional zodSchema;
          metadata = (case openapi zodSchema of Some m \<Rightarrow> Some m | None \<Rightarrow> openapi innerSchema);
          schemaName = metadata_name metadata
      in case (case schemaName of
                 None \<Rightarrow> None
               | Some n \<Rightarrow> if n \<noteq> [] \<and> has_entry (schemaRefs this) n then Some n else None) of
           Some n \<Rightarrow> (Inr (schema_ref n), this)
         | None \<Rightarrow>
           (case toOpenAPISchema innerSchema (isNullable zodSchema)
                   (truthy (opt_prop metadata ''type'')) saveIfNew this of
              (Inl e, this1) \<Rightarrow> (Inl e, this1)
            | (Inr fragment, this1) \<Rightarrow>
                (let result =
                       omitBy
                         (assign fragment
                            (case metadata of
                               Some m \<Rightarrow> if withMetaData then buildMetadata m else []
                             | None \<Rightarrow> []))
                         isUndefined
                 in (Inr result,
                     (case schemaName of
                        None \<Rightarrow> this1
                      | Some n \<Rightarrow>
                          if saveIfNew \<and> n \<noteq> []
                          then this1\<lparr>schemaRefs := AList.update n result (schemaRefs this1)\<rparr>
                          else this1)))))"
| "toOpenAPISchema (ZodNull m) nullable hasOpenAPIType saveIfNew this =
     (Inr [(''type'', JStr ''null'')], this)"
| "toOpenAPISchema (ZodString m) nullable hasOpenAPIType saveIfNew this =
     (Inr [(''type'', JStr ''string''), (''nullable'', nullable_field nullable)], this)"
| "toOpenAPISchema (ZodNumber m checks) nullable hasOpenAPIType saveIfNew this =
     (Inr [(''type'', JStr ''number''),
           (''minimum'', num_or_undefined (minValue checks None)),
           (''maximum'', num_or_undefined (maxValue checks None)),
           (''nullable'', nullable_field nullable)], this)"
| "toOpenAPISchema (ZodLiteral m v) nullable hasOpenAPIType saveIfNew this =
     (Inr [(''type'', JStr (typeof v)),
           (''nullable'', nullable_field nullable),
           (''enum'', JArr [v])], this)"
| "toOpenAPISchema (ZodEnum m vals) nullable hasOpenAPIType saveIfNew this =
     (Inr [(''type'', JStr ''string''),
           (''nullable'', nullable_field nullable),
           (''enum'', JArr (map JStr vals))], this)"
| "toOpenAPISchema (ZodNativeEnum m vals) nullable hasOpenAPIType saveIfNew this =
     (let enumValues = Object_values vals
      in (Inr [(''type'', JStr ''string''),
               (''nullable'', nullable_field nullable),
               (''enum'', JArr enumValues)], this))"
| "toOpenAPISchema (ZodObject m propTypes unknownKeysOption) nullable hasOpenAPIType saveIfNew this =
     (case mapValues_generateSingleSchema propTypes saveIfNew this of
        (Inl e, this1) \<Rightarrow> (Inl e, this1)
      | (Inr properties, this1) \<Rightarrow>
          (Inr [(''type'', JStr ''object''),
                (''properties'', JObj properties),
                (''required'',
                   JArr (map (\<lambda>kt. JStr (fst kt)) (filter (\<lambda>kt. \<not> isOptional (snd kt)) propTypes))),
                (''additionalProperties'',
                   if unknownKeysOption = Passthrough then JBool True else JUndefined),
                (''nullable'', nullable_field nullable)], this1))"
| "toOpenAPISchema (ZodBoolean m) nullable hasOpenAPIType saveIfNew this =
     (Inr [(''type'', JStr ''boolean''), (''nullable'', nullable_field nullable)], this)"
| "toOpenAPISchema (ZodArray m itemType minLength maxLength) nullable hasOpenAPIType saveIfNew this =
     (case generateSingleSchema itemType saveIfNew True this of
        (Inl e, this1) \<Rightarrow> (Inl e, this1)
      | (Inr items, this1) \<Rightarrow>
          (Inr [(''type'', JStr ''array''),
                (''items'', JObj items),
                (''minItems'', num_or_undefined minLength),
                (''maxItems'', num_or_undefined maxLength)], this1))"
| "toOpenAPISchema (ZodUnion m opts) nullable hasOpenAPIType saveIfNew this =
     (case map_generateSingleSchema (flattenUnionTypes (ZodUnion m opts)) saveIfNew this of
        (Inl e, this1) \<Rightarrow> (Inl e, this1)
      | (Inr mapped, this1) \<Rightarrow> (Inr [(''anyOf'', JArr mapped)], this1))"
| "toOpenAPISchema (ZodIntersection m left right) nullable hasOpenAPIType saveIfNew this =
     (case map_generateSingleSchema (flattenIntersectionTypes (ZodIntersection m left right))
             saveIfNew this of
        (Inl e, this1) \<Rightarrow> (Inl e, this1)
      | (Inr mapped, this1) \<Rightarrow> (Inr [(''allOf'', JArr mapped)], this1))"
| "toOpenAPISchema (ZodOptional m z) nullable hasOpenAPIType saveIfNew this =
     (if hasOpenAPIType then (Inr [], this) else (Inl UnsupportedSchemaKind, this))"
| "toOpenAPISchema (ZodNullable m z) nullable hasOpenAPIType saveIfNew this =
     (if hasOpenAPIType then (Inr [], this) else (Inl UnsupportedSchemaKind, this))"
| "toOpenAPISchema (ZodOther m typeName) nullable hasOpenAPIType saveIfNew this =
     (if hasOpenAPIType then (Inr [], this) else (Inl UnsupportedSchemaKind, this))"
| "map_generateSingleSchema [] saveIfNew this = (Inr [], this)"
| "map_generateSingleSchema (schema # rest) saveIfNew this =
     (case generateSingleSchema schema saveIfNew True this of
        (Inl e, this1) \<Rightarrow> (Inl e, this1)
      | (Inr r, this1) \<Rightarrow>
          (case map_generateSingleSchema rest saveIfNew this1 of
             (Inl e, this2) \<Rightarrow> (Inl e, this2)
           | (Inr rs, this2) \<Rightarrow> (Inr (JObj r # rs), this2)))"
| "mapValues_generateSingleSchema [] saveIfNew this = (Inr [], this)"
| "mapValues_generateSingleSchema (kv # rest) saveIfNew this =
     (case generateSingleSchema (snd kv) saveIfNew True this of
        (Inl e, this1) \<Rightarrow> (Inl e, this1)
      | (Inr r, this1) \<Rightarrow>
          (case mapValues_generateSingleSchema rest saveIfNew this1 of
             (Inl e, this2) \<Rightarrow> (Inl e, this2)
           | (Inr rs, this2) \<Rightarrow> (Inr ((fst kv, JObj r) # rs), this2)))"
  by pat_completeness auto

termination
proof (relation "measure (\<lambda>x. case x of
          Inl (Inl (z, _)) \<Rightarrow> 3 * nodes z + 1
        | Inl (Inr (z, _)) \<Rightarrow> 3 * nodes z
        | Inr (Inl (zs, _)) \<Rightarrow> 3 * sum_list (map nodes zs) + 2
        | Inr (Inr (ps, _)) \<Rightarrow> 3 * sum_list (map (\<lambda>p. nodes (snd p)) ps) + 2)",
       goal_cases)
  case 1
  show ?case by simp
next
  case (2 zodSchema)
  then show ?case using nodes_unwrapOptional [of zodSchema] by simp
next
  case 3
  then show ?case by simp
next
  case 4
  then show ?case by simp
next
  case (5 m opts)
  then show ?case using nodes_flatten_union_less [of m opts] by simp
next
  case (6 m left right)
  then show ?case using nodes_flatten_intersection_less [of m left right] by simp
next
  case 7
  then show ?case by simp
next
  case (8 schema)
  then show ?case using nodes_pos [of schema] by simp
next
  case 9
  then show ?case by simp
next
  case (10 kv)
  then show ?case using nodes_pos [of "snd kv"] by simp
qed

declare generateSingleSchema.simps [simp del]

lemmas mapper_induct =
  generateSingleSchema_toOpenAPISchema_map_generateSingleSchema_mapValues_generateSingleSchema.induct

subsection \<open>The two ways through \<open>generateSingleSchema\<close>\<close>

text \<open>
  A call either finds the node's name in the registry and returns the reference, or maps the
  unwrapped node, merges the metadata and stores the result under the name. The three parts
  are named here; the two lemmas after them are the function's equation read in each case,
  and \<open>mapper_cases\<close> is its induction rule in these terms.
\<close>

definition registered_name :: "ZodType \<Rightarrow> OpenAPIGenerator \<Rightarrow> string option" where
  "registered_name z this =
     (case metadata_name (getMetadata z) of
        None \<Rightarrow> None
      | Some n \<Rightarrow> if n \<noteq> [] \<and> has_entry (schemaRefs this) n then Some n else None)"

definition merged_fragment :: "ZodType \<Rightarrow> bool \<Rightarrow> obj \<Rightarrow> obj" where
  "merged_fragment z wm fragment =
     omitBy (assign fragment
        (case getMetadata z of Some m \<Rightarrow> if wm then buildMetadata m else [] | None \<Rightarrow> []))
       isUndefined"

definition stored :: "ZodType \<Rightarrow> bool \<Rightarrow> obj \<Rightarrow> OpenAPIGenerator \<Rightarrow> OpenAPIGenerator" where
  "stored z saveIfNew result this =
     (case metadata_name (getMetadata z) of
        None \<Rightarrow> this
      | Some n \<Rightarrow> if saveIfNew \<and> n \<noteq> []
                  then this\<lparr>schemaRefs := AList.update n result (schemaRefs this)\<rparr> else this)"

lemma generateSingleSchema_registered:
  "registered_name z this = Some n \<Longrightarrow>
   generateSingleSchema z saveIfNew wm this = (Inr (schema_ref n), this)"
  by (simp add: generateSingleSchema.simps registered_name_def getMetadata_def Let_def)

lemma generateSingleSchema_unregistered:
  "registered_name z this = None \<Longrightarrow>
   generateSingleSchema z saveIfNew wm this =
     (case toOpenAPISchema (unwrapOptional z) (isNullable z)
             (truthy (opt_prop (getMetadata z) ''type'')) saveIfNew this of
        (Inl e, this1) \<Rightarrow> (Inl e, this1)
      | (Inr fragment, this1) \<Rightarrow>
          (Inr (merged_fragment z wm fragment),
           stored z saveIfNew (merged_fragment z wm fragment) this1))"
  by (simp add: generateSingleSchema.simps registered_name_def getMetadata_def Let_def
        merged_fragment_def stored_def split: prod.splits sum.splits)

lemma mapper_cases [case_names schema null string number literal enum nativeEnum object boolean
    array union intersection optional nullable other map_nil map_cons values_nil values_cons]:
  assumes "\<And>z saveIfNew wm this.
      (registered_name z this = None \<Longrightarrow>
         Q (unwrapOptional z) (isNullable z) (truthy (opt_prop (getMetadata z) ''type''))
           saveIfNew this) \<Longrightarrow>
      P z saveIfNew wm this"
    and "\<And>m n h saveIfNew this. Q (ZodNull m) n h saveIfNew this"
    and "\<And>m n h saveIfNew this. Q (ZodString m) n h saveIfNew this"
    and "\<And>m checks n h saveIfNew this. Q (ZodNumber m checks) n h saveIfNew this"
    and "\<And>m v n h saveIfNew this. Q (ZodLiteral m v) n h saveIfNew this"
    and "\<And>m vals n h saveIfNew this. Q (ZodEnum m vals) n h saveIfNew this"
    and "\<And>m vals n h saveIfNew this. Q (ZodNativeEnum m vals) n h saveIfNew this"
    and "\<And>m propTypes uk n h saveIfNew this.
      S propTypes saveIfNew this \<Longrightarrow> Q (ZodObject m propTypes uk) n h saveIfNew this"
    and "\<And>m n h saveIfNew this. Q (ZodBoolean m) n h saveIfNew this"
    and "\<And>m itemType minLength maxLength n h saveIfNew this.
      P itemType saveIfNew True this \<Longrightarrow>
      Q (ZodArray m itemType minLength maxLength) n h saveIfNew this"
    and "\<And>m opts n h saveIfNew this.
      R (flattenUnionTypes (ZodUnion m opts)) saveIfNew this \<Longrightarrow>
      Q (ZodUnion m opts) n h saveIfNew this"
    and "\<And>m left right n h saveIfNew this.
      R (flattenIntersectionTypes (ZodIntersection m left right)) saveIfNew this \<Longrightarrow>
      Q (ZodIntersection m left right) n h saveIfNew this"
    and "\<And>m z n h saveIfNew this. Q (ZodOptional m z) n h saveIfNew this"
    and "\<And>m z n h saveIfNew this. Q (ZodNullable m z) n h saveIfNew this"
    and "\<And>m typeName n h saveIfNew this. Q (ZodOther m typeName) n h saveIfNew this"
    and "\<And>saveIfNew this. R [] saveIfNew this"
    and "\<And>schema rest saveIfNew this.
      P schema saveIfNew True this \<Longrightarrow>
      (\<And>r this1. generateSingleSchema schema saveIfNew True this = (Inr r, this1) \<Longrightarrow>
         R rest saveIfNew this1) \<Longrightarrow>
      R (schema # rest) saveIfNew this"
    and "\<And>saveIfNew this. S [] saveIfNew this"
    and "\<And>kv rest saveIfNew this.
      P (snd kv) saveIfNew True this \<Longrightarrow>
      (\<And>r this1. generateSingleSchema (snd kv) saveIfNew True this = (Inr r, this1) \<Longrightarrow>
         S rest saveIfNew this1) \<Longrightarrow>
      S (kv # rest) saveIfNew this"
  shows "P z0 s0 w0 t0" and "Q z1 n1 h1 s1 t1" and "R zs2 s2 t2" and "S ps3 s3 t3"
proof (induction z0 s0 w0 t0 and z1 n1 h1 s1 t1 and zs2 s2 t2 and ps3 s3 t3 rule: mapper_induct)
  case (1 zodSchema saveIfNew withMetaData this)
  show ?case
  proof (rule assms(1))
    assume "registered_name zodSchema this = None"
    then show "Q (unwrapOptional zodSchema) (isNullable zodSchema)
        (truthy (opt_prop (getMetadata zodSchema) ''type'')) saveIfNew this"
      using "1.IH" by (simp add: registered_name_def getMetadata_def)
  qed
next
  case (17 schema rest saveIfNew this)
  show ?case
  proof (rule assms(17))
    show "P schema saveIfNew True this" by (rule "17.IH"(1))
    fix r this1
    assume "generateSingleSchema schema saveIfNew True this = (Inr r, this1)"
    then show "R rest saveIfNew this1" using "17.IH"(2) by simp
  qed
next
  case (19 kv rest saveIfNew this)
  show ?case
  proof (rule assms(19))
    show "P (snd kv) saveIfNew True this" by (rule "19.IH"(1))
    fix r this1
    assume "generateSingleSchema (snd kv) saveIfNew True this = (Inr r, this1)"
    then show "S rest saveIfNew this1" using "19.IH"(2) by simp
  qed
qed (simp_all add: assms)

section \<open>The parameter builder\<close>

text \<open>
  \<open>generateSingleParameter\<close>. \<open>externalName ?? metadata?.name\<close> takes the metadata's name only
  when no external name is given; \<open>!schemaName\<close> then refuses a missing and an empty name.
\<close>

definition generateSingleParameter ::
    "ZodType \<Rightarrow> ParameterLocation \<Rightarrow> bool \<Rightarrow> string option \<Rightarrow> OpenAPIGenerator
     \<Rightarrow> (error + obj) \<times> OpenAPIGenerator" where
  "generateSingleParameter zodSchema location saveIfNew externalName this =
     (let metadata = getMetadata zodSchema;
          schemaName = (case externalName of Some n \<Rightarrow> Some n | None \<Rightarrow> metadata_name metadata)
      in case schemaName of
           None \<Rightarrow> (Inl UnnamedParameter, this)
         | Some n \<Rightarrow>
             if n = [] then (Inl UnnamedParameter, this)
             else if has_entry (paramRefs this) n then (Inr (parameter_ref n), this)
             else
               (let required = (\<not> isOptional zodSchema \<and> \<not> isNullable zodSchema)
                in case generateSingleSchema zodSchema False False this of
                     (Inl e, this1) \<Rightarrow> (Inl e, this1)
                   | (Inr schema, this1) \<Rightarrow>
                       (let result =
                              assign
                                [(''in'', JStr (location_string location)),
                                 (''name'', JStr n),
                                 (''schema'', JObj schema),
                                 (''required'', JBool required)]
                                (case metadata of Some m \<Rightarrow> buildMetadata m | None \<Rightarrow> [])
                        in (Inr result,
                            if saveIfNew
                            then this1\<lparr>paramRefs := AList.update n result (paramRefs this1)\<rparr>
                            else this1))))"

text \<open>
  \<open>getParamsByLocation\<close>: one parameter per property of an object schema, named by the
  property; anything but an object schema gives no parameter. \<open>compact\<close> keeps every result,
  an object being truthy.
\<close>

fun params_of_shape ::
    "(string \<times> ZodType) list \<Rightarrow> ParameterLocation \<Rightarrow> OpenAPIGenerator
     \<Rightarrow> (error + jsval list) \<times> OpenAPIGenerator" where
  "params_of_shape [] location this = (Inr [], this)"
| "params_of_shape (kv # rest) location this =
     (case generateSingleParameter (snd kv) location False (Some (fst kv)) this of
        (Inl e, this1) \<Rightarrow> (Inl e, this1)
      | (Inr r, this1) \<Rightarrow>
          (case params_of_shape rest location this1 of
             (Inl e, this2) \<Rightarrow> (Inl e, this2)
           | (Inr rs, this2) \<Rightarrow> (Inr (JObj r # rs), this2)))"

fun getParamsByLocation ::
    "ZodType option \<Rightarrow> ParameterLocation \<Rightarrow> OpenAPIGenerator
     \<Rightarrow> (error + jsval list) \<times> OpenAPIGenerator" where
  "getParamsByLocation None location this = (Inr [], this)"
| "getParamsByLocation (Some (ZodObject m propTypes uk)) location this =
     (case params_of_shape propTypes location this of
        (Inl e, this1) \<Rightarrow> (Inl e, this1)
      | (Inr rs, this1) \<Rightarrow> (Inr (compact rs), this1))"
| "getParamsByLocation (Some paramsSchema) location this = (Inr [], this)"

text \<open>The header parameters: \<open>headers.map((header) => generateSingleParameter(header,
  'header', false))\<close>.\<close>

fun params_of_headers ::
    "ZodType list \<Rightarrow> OpenAPIGenerator \<Rightarrow> (error + jsval list) \<times> OpenAPIGenerator" where
  "params_of_headers [] this = (Inr [], this)"
| "params_of_headers (header # rest) this =
     (case generateSingleParameter header Header False None this of
        (Inl e, this1) \<Rightarrow> (Inl e, this1)
      | (Inr r, this1) \<Rightarrow>
          (case params_of_headers rest this1 of
             (Inl e, this2) \<Rightarrow> (Inl e, this2)
           | (Inr rs, this2) \<Rightarrow> (Inr (JObj r # rs), this2)))"

definition getParameters ::
    "RouteRequest option \<Rightarrow> OpenAPIGenerator \<Rightarrow> (error + jsval list) \<times> OpenAPIGenerator" where
  "getParameters req this =
     (case req of
        None \<Rightarrow> (Inr [], this)
      | Some rq \<Rightarrow>
          (case getParamsByLocation (params rq) Path this of
             (Inl e, this1) \<Rightarrow> (Inl e, this1)
           | (Inr pathParams, this1) \<Rightarrow>
               (case getParamsByLocation (query rq) Query this1 of
                  (Inl e, this2) \<Rightarrow> (Inl e, this2)
                | (Inr queryParams, this2) \<Rightarrow>
                    (case (case headers rq of
                             None \<Rightarrow> (Inr [], this2)
                           | Some hs \<Rightarrow> params_of_headers hs this2) of
                       (Inl e, this3) \<Rightarrow> (Inl e, this3)
                     | (Inr hs, this3) \<Rightarrow>
                         (Inr (pathParams @ queryParams @ compact hs), this3)))))"

section \<open>Routes and the document\<close>

text \<open>\<open>getBodyDoc\<close>: \<open>undefined\<close> without a body schema, else the request body object.\<close>

definition getBodyDoc ::
    "ZodType option \<Rightarrow> OpenAPIGenerator \<Rightarrow> (error + jsval) \<times> OpenAPIGenerator" where
  "getBodyDoc bodySchema this =
     (case bodySchema of
        None \<Rightarrow> (Inr JUndefined, this)
      | Some b \<Rightarrow>
          (case generateSingleSchema b False True this of
             (Inl e, this1) \<Rightarrow> (Inl e, this1)
           | (Inr schema, this1) \<Rightarrow>
               (let metadata = getMetadata b
                in (Inr (JObj
                      [(''description'', opt_prop metadata ''description''),
                       (''required'', JBool True),
                       (''content'',
                          JObj [(''application/json'', JObj [(''schema'', JObj schema)])])]),
                    this1))))"

text \<open>
  \<open>generateSingleRoute\<close>: the response schema first, then the fields of the operation in
  the order of the object literal; the path entry is merged with what the path has already.
  (Assigning to the path \<open>__proto__\<close> would set the registry's prototype; the model stores it as
  any other path.)
\<close>

definition generateSingleRoute ::
    "RouteConfig \<Rightarrow> OpenAPIGenerator \<Rightarrow> (error + obj) \<times> OpenAPIGenerator" where
  "generateSingleRoute route this =
     (case generateSingleSchema (response route) False True this of
        (Inl e, this1) \<Rightarrow> (Inl e, this1)
      | (Inr responseSchema, this1) \<Rightarrow>
          (case getParameters (request route) this1 of
             (Inl e, this2) \<Rightarrow> (Inl e, this2)
           | (Inr parameters, this2) \<Rightarrow>
               (case getBodyDoc (case request route of None \<Rightarrow> None | Some rq \<Rightarrow> body rq) this2 of
                  (Inl e, this3) \<Rightarrow> (Inl e, this3)
                | (Inr requestBody, this3) \<Rightarrow>
                    (let routeDoc =
                           [(method route,
                             JObj
                               [(''description'', str_or_undefined (description route)),
                                (''summary'', str_or_undefined (summary route)),
                                (''parameters'', JArr parameters),
                                (''requestBody'', requestBody),
                                (''responses'',
                                   JObj
                                     [(''200'',
                                       JObj
                                         [(''description'',
                                             opt_prop (openapi (response route)) ''description''),
                                          (''content'',
                                             JObj
                                               [(''application/json'',
                                                 JObj [(''schema'', JObj responseSchema)])])])])])]
                     in (Inr routeDoc,
                         this3\<lparr>pathRefs :=
                                 AList.update (path route)
                                   (assign
                                      (case map_of (pathRefs this3) (path route) of
                                         None \<Rightarrow> [] | Some old \<Rightarrow> old)
                                      routeDoc)
                                   (pathRefs this3)\<rparr>)))))"

text \<open>\<open>generateSingle\<close> dispatches on the definition's type, in the source's order.\<close>

fun generateSingle ::
    "OpenAPIDefinitions \<Rightarrow> OpenAPIGenerator \<Rightarrow> (error + obj) \<times> OpenAPIGenerator" where
  "generateSingle (ParameterDef location schema) this =
     generateSingleParameter schema location True None this"
| "generateSingle (SchemaDef schema) this = generateSingleSchema schema True True this"
| "generateSingle (RouteDef route) this = generateSingleRoute route this"

text \<open>\<open>definitions.forEach((definition) => this.generateSingle(definition))\<close>: the first
  throw ends the loop.\<close>

fun forEach_generateSingle ::
    "OpenAPIDefinitions list \<Rightarrow> OpenAPIGenerator \<Rightarrow> (error + unit) \<times> OpenAPIGenerator" where
  "forEach_generateSingle [] this = (Inr (), this)"
| "forEach_generateSingle (definition # rest) this =
     (case generateSingle definition this of
        (Inl e, this1) \<Rightarrow> (Inl e, this1)
      | (Inr r, this1) \<Rightarrow> forEach_generateSingle rest this1)"

text \<open>A registry as the value it is in the document.\<close>

definition registry_value :: "(string \<times> obj) list \<Rightarrow> jsval" where
  "registry_value reg = JObj (map (\<lambda>kv. (fst kv, JObj (snd kv))) reg)"

definition components_of :: "OpenAPIGenerator \<Rightarrow> jsval" where
  "components_of this =
     JObj [(''schemas'', registry_value (schemaRefs this)),
           (''parameters'', registry_value (paramRefs this))]"

definition generateDocs :: "OpenAPIGenerator \<Rightarrow> (error + obj) \<times> OpenAPIGenerator" where
  "generateDocs this =
     (case config this of
        None \<Rightarrow> (Inl ConfigMissing, this)
      | Some cfg \<Rightarrow>
          (case forEach_generateSingle (definitions this) this of
             (Inl e, this1) \<Rightarrow> (Inl e, this1)
           | (Inr u, this1) \<Rightarrow>
               (Inr (assign [] (cfg @
                       [(''components'', components_of this1),
                        (''paths'', registry_value (pathRefs this1))])),
                this1)))"

definition generateComponents :: "OpenAPIGenerator \<Rightarrow> (error + obj) \<times> OpenAPIGenerator" where
  "generateComponents this =
     (case forEach_generateSingle (definitions this) this of
        (Inl e, this1) \<Rightarrow> (Inl e, this1)
      | (Inr u, this1) \<Rightarrow> (Inr [(''components'', components_of this1)], this1))"

text \<open>The generator as the constructor leaves it.\<close>

definition new_OpenAPIGenerator :: "OpenAPIDefinitions list \<Rightarrow> obj option \<Rightarrow> OpenAPIGenerator" where
  "new_OpenAPIGenerator defs cfg =
     \<lparr>schemaRefs = [], paramRefs = [], pathRefs = [], definitions = defs, config = cfg\<rparr>"

section \<open>The OpenAPI 3.0 specifics\<close>

text \<open>\<open>OpenApiGeneratorV30Specifics\<close>: \<open>nullType\<close>, \<open>mapNullableOfArray\<close>,
  \<open>mapNullableType\<close> and \<open>getNumberChecks\<close>.\<close>

definition nullType :: obj where
  "nullType = [(''nullable'', JBool True)]"

definition mapNullableOfArray :: "jsval list \<Rightarrow> bool \<Rightarrow> jsval list" where
  "mapNullableOfArray objects nullable =
     (if nullable then objects @ [JObj nullType] else objects)"

definition mapNullableType :: "string option \<Rightarrow> bool \<Rightarrow> obj" where
  "mapNullableType type nullable =
     assign
       (assign [] (case type of None \<Rightarrow> [] | Some t \<Rightarrow> if t = [] then [] else [(''type'', JStr t)]))
       (if nullable then nullType else [])"

fun numberCheck :: "ZodNumericCheck \<Rightarrow> obj" where
  "numberCheck (CheckMin v inclusive) =
     (if inclusive then [(''minimum'', JNum v)]
      else [(''minimum'', JNum v), (''exclusiveMinimum'', JBool True)])"
| "numberCheck (CheckMax v inclusive) =
     (if inclusive then [(''maximum'', JNum v)]
      else [(''maximum'', JNum v), (''exclusiveMaximum'', JBool True)])"
| "numberCheck (CheckOther kind) = []"

definition getNumberChecks :: "ZodNumericCheck list \<Rightarrow> obj" where
  "getNumberChecks checks = fold (\<lambda>c acc. assign acc (numberCheck c)) checks []"

section \<open>Invariants of the mapper's recursion\<close>

text \<open>
  Three facts proved along the recursion of the mapper: without \<open>saveIfNew\<close> the generator
  is returned as it was; a fragment that the registry holds when a call begins is still there
  when it ends; the only error of the mapper is the unsupported schema kind.
\<close>

lemma mapper_frame:
  "\<not> saveIfNew \<Longrightarrow> snd (generateSingleSchema z saveIfNew wm this) = this"
  "\<not> saveIfNew \<Longrightarrow> snd (toOpenAPISchema z' n h saveIfNew this) = this"
  "\<not> saveIfNew \<Longrightarrow> snd (map_generateSingleSchema zs saveIfNew this) = this"
  "\<not> saveIfNew \<Longrightarrow> snd (mapValues_generateSingleSchema ps saveIfNew this) = this"
proof (induction z saveIfNew wm this and z' n h saveIfNew this and zs saveIfNew this and ps saveIfNew this
    rule: mapper_cases)
  case (schema z saveIfNew wm this)
  show ?case
  proof (cases "registered_name z this")
    case None
    with schema show ?thesis
      by (auto simp: generateSingleSchema_unregistered stored_def split: prod.splits sum.splits option.splits)
  next
    case (Some n)
    then show ?thesis by (simp add: generateSingleSchema_registered)
  qed
qed (auto split: prod.splits sum.splits)


lemma has_entry_stored: "map_of reg k = Some v \<Longrightarrow> has_entry reg k"
  by (simp add: has_entry_def)

lemma stored_other:
  "registered_name z this0 = None \<Longrightarrow> map_of (schemaRefs this0) N = Some f \<Longrightarrow>
   map_of (schemaRefs this1) N = Some f \<Longrightarrow>
   map_of (schemaRefs (stored z saveIfNew result this1)) N = Some f"
  by (auto simp: stored_def registered_name_def update_conv' has_entry_def
      split: option.splits if_splits)

lemma stored_kept:
  "map_of (schemaRefs this) N = Some f \<Longrightarrow>
     map_of (schemaRefs (snd (generateSingleSchema z saveIfNew wm this))) N = Some f"
  "map_of (schemaRefs this) N = Some f \<Longrightarrow>
     map_of (schemaRefs (snd (toOpenAPISchema z' n h saveIfNew this))) N = Some f"
  "map_of (schemaRefs this) N = Some f \<Longrightarrow>
     map_of (schemaRefs (snd (map_generateSingleSchema zs saveIfNew this))) N = Some f"
  "map_of (schemaRefs this) N = Some f \<Longrightarrow>
     map_of (schemaRefs (snd (mapValues_generateSingleSchema ps saveIfNew this))) N = Some f"
proof (induction z saveIfNew wm this and z' n h saveIfNew this and zs saveIfNew this and ps saveIfNew this
    rule: mapper_cases)
  case (schema z saveIfNew wm this)
  show ?case
  proof (cases "registered_name z this")
    case None
    with schema show ?thesis
      by (auto simp: generateSingleSchema_unregistered stored_other split: prod.splits sum.splits)
  next
    case (Some n)
    with schema show ?thesis by (simp add: generateSingleSchema_registered)
  qed
next
qed (auto split: prod.splits sum.splits)

lemma only_unsupported:
  "fst (generateSingleSchema z saveIfNew wm this) = Inl e \<Longrightarrow> e = UnsupportedSchemaKind"
  "fst (toOpenAPISchema z' n h saveIfNew this) = Inl e \<Longrightarrow> e = UnsupportedSchemaKind"
  "fst (map_generateSingleSchema zs saveIfNew this) = Inl e \<Longrightarrow> e = UnsupportedSchemaKind"
  "fst (mapValues_generateSingleSchema ps saveIfNew this) = Inl e \<Longrightarrow> e = UnsupportedSchemaKind"
proof (induction z saveIfNew wm this and z' n h saveIfNew this and zs saveIfNew this and ps saveIfNew this
    rule: mapper_cases)
  case (schema z saveIfNew wm this)
  show ?case
  proof (cases "registered_name z this")
    case None
    with schema show ?thesis
      by (auto simp: generateSingleSchema_unregistered split: prod.splits sum.splits)
  next
    case (Some n)
    with schema show ?thesis by (simp add: generateSingleSchema_registered)
  qed
qed (auto split: prod.splits sum.splits if_splits)

section \<open>Frame: what a call with \<open>saveIfNew = false\<close> leaves alone\<close>

lemma generateSingleParameter_frame:
  "snd (generateSingleParameter z loc False ext this) = this"
proof -
  have "snd (generateSingleSchema z False False this) = this"
    by (simp add: mapper_frame(1))
  then show ?thesis
    by (auto simp: generateSingleParameter_def Let_def split: option.splits prod.splits sum.splits)
qed

text \<open>
  C10. With \<open>saveIfNew = false\<close> the schema mapper and the parameter mapper return the
  generator as they received it, so the three registries are unchanged; this holds for the
  dispatch and for its loops over object properties, array items and union or intersection
  members as well. Hence a second such call on the same node, made after the first, returns
  the same result.
\<close>

theorem saveIfNew_false_leaves_registries:
  "snd (generateSingleSchema z False wm this) = this
   \<and> snd (toOpenAPISchema z nullable hasOpenAPIType False this) = this
   \<and> snd (map_generateSingleSchema zs False this) = this
   \<and> snd (mapValues_generateSingleSchema ps False this) = this
   \<and> snd (generateSingleParameter z loc False ext this) = this
   \<and> fst (generateSingleSchema z False wm (snd (generateSingleSchema z False wm this)))
       = fst (generateSingleSchema z False wm this)
   \<and> fst (generateSingleParameter z loc False ext
            (snd (generateSingleParameter z loc False ext this)))
       = fst (generateSingleParameter z loc False ext this)"
proof -
  have schema: "snd (generateSingleSchema z False wm this) = this"
    by (simp add: mapper_frame(1))
  have dispatch: "snd (toOpenAPISchema z nullable hasOpenAPIType False this) = this"
    by (simp add: mapper_frame(2))
  have members: "snd (map_generateSingleSchema zs False this) = this"
    by (simp add: mapper_frame(3))
  have properties: "snd (mapValues_generateSingleSchema ps False this) = this"
    by (simp add: mapper_frame(4))
  have parameter: "snd (generateSingleParameter z loc False ext this) = this"
    by (rule generateSingleParameter_frame)
  show ?thesis
    by (simp only: schema dispatch members properties parameter simp_thms)
qed

text \<open>The theorem at a nested schema: an object with a named array property.\<close>

definition example_generator :: OpenAPIGenerator where
  "example_generator = new_OpenAPIGenerator [] None"

definition example_object :: ZodType where
  "example_object =
     ZodObject None
       [(''tags'', ZodArray (Some [(''name'', JStr ''Tags'')]) (ZodString None) None None),
        (''id'', ZodOptional None (ZodNumber None []))]
       Strip"

theorem saveIfNew_false_leaves_registries_witness:
  "generateSingleSchema example_object False True example_generator =
     (Inr [(''type'', JStr ''object''),
           (''properties'',
              JObj [(''tags'', JObj [(''type'', JStr ''array''),
                                     (''items'', JObj [(''type'', JStr ''string'')])]),
                    (''id'', JObj [(''type'', JStr ''number'')])]),
           (''required'', JArr [JStr ''tags''])],
      example_generator)
   \<and> snd (generateSingleParameter example_object Query False (Some ''filter'') example_generator)
       = example_generator"
proof -
  have "generateSingleSchema example_object False True example_generator =
     (Inr [(''type'', JStr ''object''),
           (''properties'',
              JObj [(''tags'', JObj [(''type'', JStr ''array''),
                                     (''items'', JObj [(''type'', JStr ''string'')])]),
                    (''id'', JObj [(''type'', JStr ''number'')])]),
           (''required'', JArr [JStr ''tags''])],
      example_generator)"
    by code_simp
  then show ?thesis
    using saveIfNew_false_leaves_registries
      [of example_object True example_generator False False "[]" "[]" Query "Some ''filter''"]
    by simp
qed

section \<open>Reference stability\<close>

lemma stored_empty_name:
  "map_of (schemaRefs this1) [] = None \<Longrightarrow>
   map_of (schemaRefs (stored z saveIfNew result this1)) [] = None"
  by (auto simp: stored_def update_conv' split: option.splits)

text \<open>The mapper stores under non-empty names only.\<close>

lemma empty_name_never_stored:
  "map_of (schemaRefs this) [] = None \<Longrightarrow>
     map_of (schemaRefs (snd (generateSingleSchema z saveIfNew wm this))) [] = None"
  "map_of (schemaRefs this) [] = None \<Longrightarrow>
     map_of (schemaRefs (snd (toOpenAPISchema z' n h saveIfNew this))) [] = None"
  "map_of (schemaRefs this) [] = None \<Longrightarrow>
     map_of (schemaRefs (snd (map_generateSingleSchema zs saveIfNew this))) [] = None"
  "map_of (schemaRefs this) [] = None \<Longrightarrow>
     map_of (schemaRefs (snd (mapValues_generateSingleSchema ps saveIfNew this))) [] = None"
proof (induction z saveIfNew wm this and z' n h saveIfNew this and zs saveIfNew this and ps saveIfNew this
    rule: mapper_cases)
  case (schema z saveIfNew wm this)
  show ?case
  proof (cases "registered_name z this")
    case None
    with schema show ?thesis
      by (auto simp: generateSingleSchema_unregistered stored_empty_name split: prod.splits sum.splits)
  next
    case (Some n)
    with schema show ?thesis by (simp add: generateSingleSchema_registered)
  qed
qed (auto split: prod.splits sum.splits)

text \<open>
  C1, as amended. For every non-empty name \<open>N\<close> under which the schema registry holds a
  fragment when a call of the schema mapper begins: a call on any node whose resolved
  metadata name is \<open>N\<close> returns the reference \<open>#/components/schemas/N\<close> and the generator
  unchanged, whatever the node's structure and the flags; and a call on any node at all
  leaves the fragment stored under \<open>N\<close> as it was.
\<close>

theorem reference_stability:
  assumes stored_N: "map_of (schemaRefs this) N = Some f"
    and nonempty: "N \<noteq> []"
    and named: "metadata_name (getMetadata z) = Some N"
  shows "generateSingleSchema z saveIfNew wm this = (Inr (schema_ref N), this)
         \<and> map_of (schemaRefs (snd (generateSingleSchema z' saveIfNew' wm' this))) N = Some f"
proof -
  have "has_entry (schemaRefs this) N"
    using stored_N by (rule has_entry_stored)
  then have "registered_name z this = Some N"
    using nonempty named by (simp add: registered_name_def)
  then have "generateSingleSchema z saveIfNew wm this = (Inr (schema_ref N), this)"
    by (rule generateSingleSchema_registered)
  moreover have "map_of (schemaRefs (snd (generateSingleSchema z' saveIfNew' wm' this))) N = Some f"
    using stored_N by (rule stored_kept(1))
  ultimately show ?thesis by simp
qed

text \<open>
  The theorem with \<open>User\<close> registered as a string: an object schema named \<open>User\<close> maps to the
  reference, and registering an \<open>Account\<close> object that has a \<open>User\<close> property leaves the
  stored \<open>User\<close> fragment alone.
\<close>

definition user_generator :: OpenAPIGenerator where
  "user_generator =
     \<lparr>schemaRefs = [(''User'', [(''type'', JStr ''string'')])], paramRefs = [], pathRefs = [],
      definitions = [], config = None\<rparr>"

definition user_object :: ZodType where
  "user_object =
     ZodObject (Some [(''name'', JStr ''User'')]) [(''age'', ZodNumber None [])] Strip"

definition account_object :: ZodType where
  "account_object =
     ZodObject (Some [(''name'', JStr ''Account'')]) [(''owner'', user_object)] Strip"

theorem reference_stability_witness:
  "generateSingleSchema user_object True True user_generator
     = (Inr [(''$ref'', JStr ''#/components/schemas/User'')], user_generator)
   \<and> map_of (schemaRefs (snd (generateSingleSchema account_object True True user_generator))) ''User''
     = Some [(''type'', JStr ''string'')]"
proof -
  have stored_N: "map_of (schemaRefs user_generator) ''User'' = Some [(''type'', JStr ''string'')]"
    by (simp add: user_generator_def)
  have nonempty: "''User'' \<noteq> []" by simp
  have named: "metadata_name (getMetadata user_object) = Some ''User''"
    by (simp add: user_object_def getMetadata_def metadata_name_def opt_prop_def get_prop_def)
  show ?thesis
    using reference_stability [OF stored_N nonempty named, of True True account_object True True]
    by (simp add: schema_ref_def)
qed

text \<open>
  The claim as stated fails in its last part. An object named \<open>Node\<close> has a property whose
  schema is also named \<open>Node\<close>. Mapping the object with \<open>saveIfNew = true\<close> first stores the
  property's fragment under \<open>Node\<close> (the registry after the dispatch of the object, inside
  the call); when the call returns, the object's own fragment has taken its place.
\<close>

definition nested_child :: ZodType where
  "nested_child = ZodString (Some [(''name'', JStr ''Node'')])"

definition nested_parent :: ZodType where
  "nested_parent = ZodObject (Some [(''name'', JStr ''Node'')]) [(''next'', nested_child)] Strip"

theorem first_registered_replaced:
  "schemaRefs (snd (toOpenAPISchema nested_parent False False True example_generator))
     = [(''Node'', [(''type'', JStr ''string'')])]
   \<and> schemaRefs (snd (generateSingleSchema nested_parent True True example_generator))
     = [(''Node'',
         [(''type'', JStr ''object''),
          (''properties'', JObj [(''next'', JObj [(''type'', JStr ''string'')])]),
          (''required'', JArr [JStr ''next''])])]
   \<and> map_of (schemaRefs (snd (generateSingleSchema nested_parent True True example_generator)))
         ''Node''
     \<noteq> Some [(''type'', JStr ''string'')]"
  by code_simp

section \<open>Nodes without metadata\<close>

text \<open>
  Without metadata on the node or under its wrappers there is no name, so no reference and
  no store: the call is the dispatch followed by \<open>omitBy(_, isUndefined)\<close>.
\<close>

lemma registered_name_no_metadata:
  "getMetadata z = None \<Longrightarrow> registered_name z this = None"
  by (simp add: registered_name_def metadata_name_def opt_prop_def)

lemma merged_fragment_no_metadata:
  "getMetadata z = None \<Longrightarrow> merged_fragment z wm fragment = omitBy fragment isUndefined"
  by (simp add: merged_fragment_def assign_def)

lemma stored_no_metadata:
  "getMetadata z = None \<Longrightarrow> stored z saveIfNew result this = this"
  by (simp add: stored_def metadata_name_def opt_prop_def)

lemma generateSingleSchema_no_metadata:
  "getMetadata z = None \<Longrightarrow>
   generateSingleSchema z saveIfNew wm this =
     (case toOpenAPISchema (unwrapOptional z) (isNullable z) False saveIfNew this of
        (Inl e, this1) \<Rightarrow> (Inl e, this1)
      | (Inr fragment, this1) \<Rightarrow> (Inr (omitBy fragment isUndefined), this1))"
  by (simp add: generateSingleSchema_unregistered registered_name_no_metadata
      merged_fragment_no_metadata stored_no_metadata opt_prop_def split: prod.splits sum.splits)

lemma flattenUnionTypes_leaf: "\<not> is_ZodUnion z \<Longrightarrow> flattenUnionTypes z = [z]"
  by (cases z) simp_all

lemma flattenIntersectionTypes_leaf:
  "\<not> is_ZodIntersection z \<Longrightarrow> flattenIntersectionTypes z = [z]"
  by (cases z) simp_all

section \<open>Unions and intersections\<close>

text \<open>
  The keys of a mapped member. \<open>has_key k v\<close>: the value \<open>v\<close> is an object with the key \<open>k\<close>.
  \<open>metadata_fields\<close> are the fields of the node's resolved metadata, none without metadata.
  \<open>leaf_without is_kind key z\<close>: under its optional and nullable wrappers the node \<open>z\<close> is not
  of the kind, and its metadata has no field \<open>key\<close>.
\<close>

fun has_key :: "string \<Rightarrow> jsval \<Rightarrow> bool" where
  "has_key k (JObj ps) = (k \<in> set (map fst ps))"
| "has_key k v = False"

definition metadata_fields :: "ZodType \<Rightarrow> obj" where
  "metadata_fields z = (case getMetadata z of None \<Rightarrow> [] | Some md \<Rightarrow> md)"

definition leaf_without :: "(ZodType \<Rightarrow> bool) \<Rightarrow> string \<Rightarrow> ZodType \<Rightarrow> bool" where
  "leaf_without is_kind key z =
     (\<not> is_kind (unwrapOptional z) \<and> key \<notin> set (map fst (metadata_fields z)))"

text \<open>
  The metadata merge and the filter of \<open>generateSingleSchema\<close> add no key but those of the
  metadata.
\<close>

lemma keys_assign: "fst ` set (assign base extra) = fst ` set base \<union> fst ` set extra"
  unfolding assign_def
  by (induction extra arbitrary: base) (auto simp: dom_update)

lemma keys_omitBy: "fst ` set (omitBy ob p) \<subseteq> fst ` set ob"
  by (auto simp: omitBy_def)

lemma keys_buildMetadata: "fst ` set (buildMetadata md) \<subseteq> fst ` set md"
  by (auto simp: buildMetadata_def omitBy_def omit_def)

lemma keys_merged_fragment:
  "fst ` set (merged_fragment z wm fragment) \<subseteq> fst ` set fragment \<union> fst ` set (metadata_fields z)"
proof -
  define extra where
    "extra = (case getMetadata z of Some m \<Rightarrow> if wm then buildMetadata m else [] | None \<Rightarrow> [])"
  have "fst ` set extra \<subseteq> fst ` set (metadata_fields z)"
  proof (cases "getMetadata z")
    case None
    then show ?thesis by (simp add: extra_def)
  next
    case (Some md)
    then show ?thesis
      using keys_buildMetadata [of md] by (cases wm) (auto simp: extra_def metadata_fields_def)
  qed
  moreover have "fst ` set (merged_fragment z wm fragment) \<subseteq> fst ` set (assign fragment extra)"
    unfolding merged_fragment_def extra_def by (rule keys_omitBy)
  ultimately show ?thesis
    unfolding keys_assign by blast
qed

text \<open>
  Only the union branch of the dispatch writes \<open>anyOf\<close>, and only the intersection branch
  \<open>allOf\<close>; so the mapped fragment of a node that is neither, under its wrappers, has the key
  from its metadata or not at all.
\<close>

lemma dispatch_without_anyOf:
  assumes "\<not> is_ZodUnion z" and "toOpenAPISchema z n h saveIfNew this = (Inr r, this1)"
  shows "''anyOf'' \<notin> fst ` set r"
proof (cases z)
  case (ZodObject m propTypes uk)
  with assms(2) show ?thesis
    by (cases "mapValues_generateSingleSchema propTypes saveIfNew this")
       (auto split: sum.splits)
next
  case (ZodArray m itemType minLength maxLength)
  with assms(2) show ?thesis
    by (cases "generateSingleSchema itemType saveIfNew True this") (auto split: sum.splits)
next
  case (ZodUnion m opts)
  with assms(1) show ?thesis by simp
next
  case (ZodIntersection m left right)
  with assms(2) show ?thesis
    by (cases "map_generateSingleSchema (flattenIntersectionTypes (ZodIntersection m left right))
                 saveIfNew this")
       (auto split: sum.splits simp del: flattenIntersectionTypes.simps)
qed (use assms(2) in \<open>auto split: if_splits\<close>)

lemma dispatch_without_allOf:
  assumes "\<not> is_ZodIntersection z" and "toOpenAPISchema z n h saveIfNew this = (Inr r, this1)"
  shows "''allOf'' \<notin> fst ` set r"
proof (cases z)
  case (ZodObject m propTypes uk)
  with assms(2) show ?thesis
    by (cases "mapValues_generateSingleSchema propTypes saveIfNew this")
       (auto split: sum.splits)
next
  case (ZodArray m itemType minLength maxLength)
  with assms(2) show ?thesis
    by (cases "generateSingleSchema itemType saveIfNew True this") (auto split: sum.splits)
next
  case (ZodUnion m opts)
  with assms(2) show ?thesis
    by (cases "map_generateSingleSchema (flattenUnionTypes (ZodUnion m opts)) saveIfNew this")
       (auto split: sum.splits simp del: flattenUnionTypes.simps)
next
  case (ZodIntersection m left right)
  with assms(1) show ?thesis by simp
qed (use assms(2) in \<open>auto split: if_splits\<close>)

lemma mapped_without_key:
  assumes meta: "key \<notin> set (map fst (metadata_fields z))"
    and ref: "key \<noteq> ''$ref''"
    and dispatch: "\<And>fragment this1.
        toOpenAPISchema (unwrapOptional z) (isNullable z)
          (truthy (opt_prop (getMetadata z) ''type'')) saveIfNew this = (Inr fragment, this1)
        \<Longrightarrow> key \<notin> fst ` set fragment"
    and call: "generateSingleSchema z saveIfNew wm this = (Inr r, this')"
  shows "\<not> has_key key (JObj r)"
proof (cases "registered_name z this")
  case (Some n)
  with call have "r = schema_ref n"
    by (simp add: generateSingleSchema_registered)
  with ref show ?thesis
    by (simp add: schema_ref_def)
next
  case None
  from call obtain fragment this1 where
    frag: "toOpenAPISchema (unwrapOptional z) (isNullable z)
             (truthy (opt_prop (getMetadata z) ''type'')) saveIfNew this = (Inr fragment, this1)"
    and r: "r = merged_fragment z wm fragment"
    by (auto simp: generateSingleSchema_unregistered [OF None] split: prod.splits sum.splits)
  have "key \<notin> fst ` set fragment"
    using frag by (rule dispatch)
  with meta have "key \<notin> fst ` set fragment \<union> fst ` set (metadata_fields z)"
    by simp
  then have "key \<notin> fst ` set (merged_fragment z wm fragment)"
    using keys_merged_fragment [of z wm fragment] by blast
  then show ?thesis
    by (simp add: r)
qed

lemma alternative_without_anyOf:
  "leaf_without is_ZodUnion ''anyOf'' z \<Longrightarrow>
   generateSingleSchema z saveIfNew wm this = (Inr r, this') \<Longrightarrow> \<not> has_key ''anyOf'' (JObj r)"
  by (rule mapped_without_key [where z = z and saveIfNew = saveIfNew and this = this])
     (auto simp: leaf_without_def dest: dispatch_without_anyOf simp del: has_key.simps)

lemma member_without_allOf:
  "leaf_without is_ZodIntersection ''allOf'' z \<Longrightarrow>
   generateSingleSchema z saveIfNew wm this = (Inr r, this') \<Longrightarrow> \<not> has_key ''allOf'' (JObj r)"
  by (rule mapped_without_key [where z = z and saveIfNew = saveIfNew and this = this])
     (auto simp: leaf_without_def dest: dispatch_without_allOf simp del: has_key.simps)

lemma alternatives_without_anyOf:
  "list_all (leaf_without is_ZodUnion ''anyOf'') zs \<Longrightarrow>
   map_generateSingleSchema zs saveIfNew this = (Inr mapped, this') \<Longrightarrow>
   list_all (\<lambda>v. \<not> has_key ''anyOf'' v) mapped"
proof (induction zs arbitrary: this mapped)
  case Nil
  then show ?case by simp
next
  case (Cons z zs)
  from Cons.prems(2) obtain r this1 rs where
    first: "generateSingleSchema z saveIfNew True this = (Inr r, this1)"
    and rest: "map_generateSingleSchema zs saveIfNew this1 = (Inr rs, this')"
    and mapped: "mapped = JObj r # rs"
    by (auto split: prod.splits sum.splits)
  from Cons.prems(1) have "leaf_without is_ZodUnion ''anyOf'' z"
    by simp
  then have "\<not> has_key ''anyOf'' (JObj r)"
    using first by (rule alternative_without_anyOf)
  moreover from Cons.prems(1) rest have "list_all (\<lambda>v. \<not> has_key ''anyOf'' v) rs"
    by (simp add: Cons.IH)
  ultimately show ?case
    by (simp add: mapped del: has_key.simps)
qed

lemma members_without_allOf:
  "list_all (leaf_without is_ZodIntersection ''allOf'') zs \<Longrightarrow>
   map_generateSingleSchema zs saveIfNew this = (Inr mapped, this') \<Longrightarrow>
   list_all (\<lambda>v. \<not> has_key ''allOf'' v) mapped"
proof (induction zs arbitrary: this mapped)
  case Nil
  then show ?case by simp
next
  case (Cons z zs)
  from Cons.prems(2) obtain r this1 rs where
    first: "generateSingleSchema z saveIfNew True this = (Inr r, this1)"
    and rest: "map_generateSingleSchema zs saveIfNew this1 = (Inr rs, this')"
    and mapped: "mapped = JObj r # rs"
    by (auto split: prod.splits sum.splits)
  from Cons.prems(1) have "leaf_without is_ZodIntersection ''allOf'' z"
    by simp
  then have "\<not> has_key ''allOf'' (JObj r)"
    using first by (rule member_without_allOf)
  moreover from Cons.prems(1) rest have "list_all (\<lambda>v. \<not> has_key ''allOf'' v) rs"
    by (simp add: Cons.IH)
  ultimately show ?case
    by (simp add: mapped del: has_key.simps)
qed

text \<open>
  No node of the flattened list is a union node, or an intersection node, itself.
\<close>

lemma flattenUnionTypes_no_union: "list_all (\<lambda>z. \<not> is_ZodUnion z) (flattenUnionTypes z)"
proof (induction z rule: flattenUnionTypes.induct)
  case (1 m options)
  then have "\<forall>x \<in> set options. list_all (\<lambda>z. \<not> is_ZodUnion z) (flattenUnionTypes x)"
    by simp
  then show ?case
    by (simp add: list_all_iff)
qed simp_all

lemma flattenIntersectionTypes_no_intersection:
  "list_all (\<lambda>z. \<not> is_ZodIntersection z) (flattenIntersectionTypes z)"
  by (induction z rule: flattenIntersectionTypes.induct) simp_all

text \<open>
  C4, as amended. For all schemas \<open>A\<close>, \<open>B\<close>, \<open>C\<close>: mapping \<open>union(union(A, B), C)\<close> yields
  exactly \<open>{anyOf: list}\<close> where the list is one list, the mapped alternatives of \<open>A\<close>, of \<open>B\<close>
  and of \<open>C\<close> in this order, left to right (\<open>flattenUnionTypes\<close> replaces a union node by its
  alternatives, recursively; the alternatives are mapped one after the other on the generator
  that the one before left, and one that fails makes the whole mapping fail). No node of that
  list is a union node; when none of \<open>A\<close>, \<open>B\<close>, \<open>C\<close> is a union node the list is the mapped
  \<open>A\<close>, \<open>B\<close>, \<open>C\<close>. No element of the emitted list has an \<open>anyOf\<close> key of its own, provided no
  alternative is a union behind an optional or nullable wrapper and no alternative's metadata
  has a field \<open>anyOf\<close>. The same holds for \<open>intersection(A, intersection(B, C))\<close>, with
  \<open>allOf\<close>, \<open>flattenIntersectionTypes\<close> and intersection nodes, the left subtree before the
  right.
\<close>

theorem nested_members_flattened:
  "generateSingleSchema (ZodUnion None [ZodUnion m [A, B], C]) saveIfNew wm this =
     (case map_generateSingleSchema
             (flattenUnionTypes A @ flattenUnionTypes B @ flattenUnionTypes C) saveIfNew this of
        (Inl e, this1) \<Rightarrow> (Inl e, this1)
      | (Inr mapped, this1) \<Rightarrow> (Inr [(''anyOf'', JArr mapped)], this1))
   \<and> list_all (\<lambda>z. \<not> is_ZodUnion z)
         (flattenUnionTypes A @ flattenUnionTypes B @ flattenUnionTypes C)
   \<and> (\<not> is_ZodUnion A \<and> \<not> is_ZodUnion B \<and> \<not> is_ZodUnion C \<longrightarrow>
        generateSingleSchema (ZodUnion None [ZodUnion m [A, B], C]) saveIfNew wm this =
          (case map_generateSingleSchema [A, B, C] saveIfNew this of
             (Inl e, this1) \<Rightarrow> (Inl e, this1)
           | (Inr mapped, this1) \<Rightarrow> (Inr [(''anyOf'', JArr mapped)], this1)))
   \<and> (\<forall>mapped this1.
         map_generateSingleSchema
           (flattenUnionTypes A @ flattenUnionTypes B @ flattenUnionTypes C) saveIfNew this
           = (Inr mapped, this1)
         \<and> list_all (leaf_without is_ZodUnion ''anyOf'')
             (flattenUnionTypes A @ flattenUnionTypes B @ flattenUnionTypes C) \<longrightarrow>
         list_all (\<lambda>v. \<not> has_key ''anyOf'' v) mapped)
   \<and> generateSingleSchema (ZodIntersection None A (ZodIntersection m B C)) saveIfNew wm this =
       (case map_generateSingleSchema
               (flattenIntersectionTypes A @ flattenIntersectionTypes B
                  @ flattenIntersectionTypes C) saveIfNew this of
          (Inl e, this1) \<Rightarrow> (Inl e, this1)
        | (Inr mapped, this1) \<Rightarrow> (Inr [(''allOf'', JArr mapped)], this1))
   \<and> list_all (\<lambda>z. \<not> is_ZodIntersection z)
         (flattenIntersectionTypes A @ flattenIntersectionTypes B @ flattenIntersectionTypes C)
   \<and> (\<not> is_ZodIntersection A \<and> \<not> is_ZodIntersection B \<and> \<not> is_ZodIntersection C \<longrightarrow>
        generateSingleSchema (ZodIntersection None A (ZodIntersection m B C)) saveIfNew wm this =
          (case map_generateSingleSchema [A, B, C] saveIfNew this of
             (Inl e, this1) \<Rightarrow> (Inl e, this1)
           | (Inr mapped, this1) \<Rightarrow> (Inr [(''allOf'', JArr mapped)], this1)))
   \<and> (\<forall>mapped this1.
         map_generateSingleSchema
           (flattenIntersectionTypes A @ flattenIntersectionTypes B
              @ flattenIntersectionTypes C) saveIfNew this
           = (Inr mapped, this1)
         \<and> list_all (leaf_without is_ZodIntersection ''allOf'')
             (flattenIntersectionTypes A @ flattenIntersectionTypes B
                @ flattenIntersectionTypes C) \<longrightarrow>
         list_all (\<lambda>v. \<not> has_key ''allOf'' v) mapped)"
proof -
  have union_flat:
    "flattenUnionTypes (ZodUnion None [ZodUnion m [A, B], C])
       = flattenUnionTypes A @ flattenUnionTypes B @ flattenUnionTypes C"
    by simp
  have union_none: "getMetadata (ZodUnion None [ZodUnion m [A, B], C]) = None"
    by (simp add: getMetadata_def)
  have union_general:
    "generateSingleSchema (ZodUnion None [ZodUnion m [A, B], C]) saveIfNew wm this =
     (case map_generateSingleSchema
             (flattenUnionTypes A @ flattenUnionTypes B @ flattenUnionTypes C) saveIfNew this of
        (Inl e, this1) \<Rightarrow> (Inl e, this1)
      | (Inr mapped, this1) \<Rightarrow> (Inr [(''anyOf'', JArr mapped)], this1))"
    unfolding generateSingleSchema_no_metadata [OF union_none]
    by (simp add: union_flat omitBy_def isUndefined_def split: prod.splits sum.splits
        del: flattenUnionTypes.simps map_generateSingleSchema.simps)
  have union_leaves:
    "\<not> is_ZodUnion A \<and> \<not> is_ZodUnion B \<and> \<not> is_ZodUnion C \<longrightarrow>
       generateSingleSchema (ZodUnion None [ZodUnion m [A, B], C]) saveIfNew wm this =
         (case map_generateSingleSchema [A, B, C] saveIfNew this of
            (Inl e, this1) \<Rightarrow> (Inl e, this1)
          | (Inr mapped, this1) \<Rightarrow> (Inr [(''anyOf'', JArr mapped)], this1))"
    unfolding union_general
    by (simp add: flattenUnionTypes_leaf del: map_generateSingleSchema.simps)
  have union_no_union:
    "list_all (\<lambda>z. \<not> is_ZodUnion z)
       (flattenUnionTypes A @ flattenUnionTypes B @ flattenUnionTypes C)"
    by (simp add: flattenUnionTypes_no_union)
  have union_plain:
    "\<forall>mapped this1.
         map_generateSingleSchema
           (flattenUnionTypes A @ flattenUnionTypes B @ flattenUnionTypes C) saveIfNew this
           = (Inr mapped, this1)
         \<and> list_all (leaf_without is_ZodUnion ''anyOf'')
             (flattenUnionTypes A @ flattenUnionTypes B @ flattenUnionTypes C) \<longrightarrow>
         list_all (\<lambda>v. \<not> has_key ''anyOf'' v) mapped"
    using alternatives_without_anyOf by blast
  have inter_flat:
    "flattenIntersectionTypes (ZodIntersection None A (ZodIntersection m B C))
       = flattenIntersectionTypes A @ flattenIntersectionTypes B @ flattenIntersectionTypes C"
    by simp
  have inter_none: "getMetadata (ZodIntersection None A (ZodIntersection m B C)) = None"
    by (simp add: getMetadata_def)
  have inter_general:
    "generateSingleSchema (ZodIntersection None A (ZodIntersection m B C)) saveIfNew wm this =
       (case map_generateSingleSchema
               (flattenIntersectionTypes A @ flattenIntersectionTypes B
                  @ flattenIntersectionTypes C) saveIfNew this of
          (Inl e, this1) \<Rightarrow> (Inl e, this1)
        | (Inr mapped, this1) \<Rightarrow> (Inr [(''allOf'', JArr mapped)], this1))"
    unfolding generateSingleSchema_no_metadata [OF inter_none]
    by (simp add: inter_flat omitBy_def isUndefined_def split: prod.splits sum.splits
        del: flattenIntersectionTypes.simps map_generateSingleSchema.simps)
  have inter_leaves:
    "\<not> is_ZodIntersection A \<and> \<not> is_ZodIntersection B \<and> \<not> is_ZodIntersection C \<longrightarrow>
        generateSingleSchema (ZodIntersection None A (ZodIntersection m B C)) saveIfNew wm this =
          (case map_generateSingleSchema [A, B, C] saveIfNew this of
             (Inl e, this1) \<Rightarrow> (Inl e, this1)
           | (Inr mapped, this1) \<Rightarrow> (Inr [(''allOf'', JArr mapped)], this1))"
    unfolding inter_general
    by (simp add: flattenIntersectionTypes_leaf del: map_generateSingleSchema.simps)
  have inter_no_inter:
    "list_all (\<lambda>z. \<not> is_ZodIntersection z)
       (flattenIntersectionTypes A @ flattenIntersectionTypes B @ flattenIntersectionTypes C)"
    by (simp add: flattenIntersectionTypes_no_intersection)
  have inter_plain:
    "\<forall>mapped this1.
         map_generateSingleSchema
           (flattenIntersectionTypes A @ flattenIntersectionTypes B
              @ flattenIntersectionTypes C) saveIfNew this
           = (Inr mapped, this1)
         \<and> list_all (leaf_without is_ZodIntersection ''allOf'')
             (flattenIntersectionTypes A @ flattenIntersectionTypes B
                @ flattenIntersectionTypes C) \<longrightarrow>
         list_all (\<lambda>v. \<not> has_key ''allOf'' v) mapped"
    using members_without_allOf by blast
  from union_general union_no_union union_leaves union_plain
    inter_general inter_no_inter inter_leaves inter_plain
  show ?thesis
    by (intro conjI)
qed

text \<open>
  The theorem with a string, a number and a boolean schema as the three members.
\<close>

definition three_leaves :: "ZodType list" where
  "three_leaves = [ZodString None, ZodNumber None [], ZodBoolean None]"

definition three_fragments :: "jsval list" where
  "three_fragments =
     [JObj [(''type'', JStr ''string'')], JObj [(''type'', JStr ''number'')],
      JObj [(''type'', JStr ''boolean'')]]"

theorem nested_members_flattened_witness:
  "generateSingleSchema
     (ZodUnion None [ZodUnion None [ZodString None, ZodNumber None []], ZodBoolean None])
     False True example_generator
     = (Inr [(''anyOf'', JArr three_fragments)], example_generator)
   \<and> list_all (\<lambda>v. \<not> has_key ''anyOf'' v) three_fragments
   \<and> generateSingleSchema
     (ZodIntersection None (ZodString None) (ZodIntersection None (ZodNumber None []) (ZodBoolean None)))
     False True example_generator
     = (Inr [(''allOf'', JArr three_fragments)], example_generator)
   \<and> list_all (\<lambda>v. \<not> has_key ''allOf'' v) three_fragments"
proof -
  note flattened =
    nested_members_flattened
      [of None "ZodString None" "ZodNumber None []" "ZodBoolean None" False True example_generator]
  have members:
    "map_generateSingleSchema [ZodString None, ZodNumber None [], ZodBoolean None] False
       example_generator
     = (Inr three_fragments, example_generator)"
    by code_simp
  have union_leaves:
    "list_all (leaf_without is_ZodUnion ''anyOf'')
       [ZodString None, ZodNumber None [], ZodBoolean None]"
    by (simp add: leaf_without_def metadata_fields_def getMetadata_def)
  have inter_leaves:
    "list_all (leaf_without is_ZodIntersection ''allOf'')
       [ZodString None, ZodNumber None [], ZodBoolean None]"
    by (simp add: leaf_without_def metadata_fields_def getMetadata_def)
  have mapped_union:
    "generateSingleSchema
       (ZodUnion None [ZodUnion None [ZodString None, ZodNumber None []], ZodBoolean None])
       False True example_generator
     = (Inr [(''anyOf'', JArr three_fragments)], example_generator)"
    using flattened by (simp add: members del: map_generateSingleSchema.simps)
  have mapped_inter:
    "generateSingleSchema
       (ZodIntersection None (ZodString None)
          (ZodIntersection None (ZodNumber None []) (ZodBoolean None)))
       False True example_generator
     = (Inr [(''allOf'', JArr three_fragments)], example_generator)"
    using flattened by (simp add: members del: map_generateSingleSchema.simps)
  have plain_union: "list_all (\<lambda>v. \<not> has_key ''anyOf'' v) three_fragments"
    using flattened members union_leaves
    by (simp del: map_generateSingleSchema.simps has_key.simps)
  have plain_inter: "list_all (\<lambda>v. \<not> has_key ''allOf'' v) three_fragments"
    using flattened members inter_leaves
    by (simp del: map_generateSingleSchema.simps has_key.simps)
  from mapped_union plain_union mapped_inter plain_inter show ?thesis
    by (intro conjI)
qed

text \<open>
  The claim as stated, for all schemas, fails where an alternative is a union behind an
  optional wrapper: \<open>flattenUnionTypes\<close> tests the node itself, the wrapper is not a union
  node, and the mapper unwraps it afterwards. With \<open>A = optional(union(string, boolean))\<close> the
  first element of the emitted list is an \<open>anyOf\<close> of its own.
\<close>

theorem wrapped_union_stays_nested:
  "fst (generateSingleSchema
          (ZodUnion None
             [ZodUnion None
                [ZodOptional None (ZodUnion None [ZodString None, ZodBoolean None]),
                 ZodNumber None []],
              ZodNull None])
          False True example_generator)
     = Inr [(''anyOf'',
             JArr [JObj [(''anyOf'',
                          JArr [JObj [(''type'', JStr ''string'')],
                                JObj [(''type'', JStr ''boolean'')]])],
                   JObj [(''type'', JStr ''number'')], JObj [(''type'', JStr ''null'')]])]
   \<and> has_key ''anyOf''
         (JObj [(''anyOf'',
                 JArr [JObj [(''type'', JStr ''string'')], JObj [(''type'', JStr ''boolean'')]])])"
  by code_simp

text \<open>
  C2. What the code does for a nullable union, for all member schemas \<open>A\<close> and \<open>B\<close>: the
  wrapper makes \<open>isNullable\<close> true, the union branch of the dispatch gives the same result for
  either value of that flag, and the fragment is exactly \<open>{anyOf: [...]}\<close> over the flattened
  alternatives, each mapped on its own by \<open>generateSingleSchema\<close> with no decoration from the
  wrapper; for \<open>A\<close> and \<open>B\<close> that are not unions themselves it is
  \<open>{anyOf: [mapped A, mapped B]}\<close>. There is no \<open>nullable\<close> key beside \<open>anyOf\<close>, whereas the
  string branch of the same dispatch emits \<open>nullable: true\<close> for a nullable string. In the
  OpenAPI 3.0 specifics, which the generator does not call, \<open>mapNullableOfArray\<close> appends the
  alternative \<open>{nullable: true}\<close> to a list of alternatives.
\<close>

theorem nullable_union:
  "isNullable (ZodNullable None (ZodUnion None [A, B]))
   \<and> toOpenAPISchema (ZodUnion m opts) True hasOpenAPIType saveIfNew this
       = toOpenAPISchema (ZodUnion m opts) False hasOpenAPIType saveIfNew this
   \<and> generateSingleSchema (ZodNullable None (ZodUnion None [A, B])) saveIfNew wm this =
       (case map_generateSingleSchema (flattenUnionTypes A @ flattenUnionTypes B) saveIfNew this of
          (Inl e, this1) \<Rightarrow> (Inl e, this1)
        | (Inr mapped, this1) \<Rightarrow> (Inr [(''anyOf'', JArr mapped)], this1))
   \<and> (\<not> is_ZodUnion A \<and> \<not> is_ZodUnion B \<longrightarrow>
        generateSingleSchema (ZodNullable None (ZodUnion None [A, B])) saveIfNew wm this =
          (case map_generateSingleSchema [A, B] saveIfNew this of
             (Inl e, this1) \<Rightarrow> (Inl e, this1)
           | (Inr mapped, this1) \<Rightarrow> (Inr [(''anyOf'', JArr mapped)], this1)))
   \<and> generateSingleSchema (ZodNullable None (ZodString None)) saveIfNew wm this
       = (Inr [(''type'', JStr ''string''), (''nullable'', JBool True)], this)
   \<and> mapNullableOfArray mapped True = mapped @ [JObj [(''nullable'', JBool True)]]"
proof -
  have nullable: "isNullable (ZodNullable None (ZodUnion None [A, B]))"
    by simp
  have ignored: "toOpenAPISchema (ZodUnion m opts) True hasOpenAPIType saveIfNew this
       = toOpenAPISchema (ZodUnion m opts) False hasOpenAPIType saveIfNew this"
    by (simp del: flattenUnionTypes.simps map_generateSingleSchema.simps)
  have flat: "flattenUnionTypes (ZodUnion None [A, B]) = flattenUnionTypes A @ flattenUnionTypes B"
    by simp
  have none: "getMetadata (ZodNullable None (ZodUnion None [A, B])) = None"
    by (simp add: getMetadata_def)
  have general:
    "generateSingleSchema (ZodNullable None (ZodUnion None [A, B])) saveIfNew wm this =
       (case map_generateSingleSchema (flattenUnionTypes A @ flattenUnionTypes B) saveIfNew this of
          (Inl e, this1) \<Rightarrow> (Inl e, this1)
        | (Inr mapped, this1) \<Rightarrow> (Inr [(''anyOf'', JArr mapped)], this1))"
    unfolding generateSingleSchema_no_metadata [OF none]
    by (simp add: flat omitBy_def isUndefined_def split: prod.splits sum.splits
        del: flattenUnionTypes.simps map_generateSingleSchema.simps)
  have leaves:
    "\<not> is_ZodUnion A \<and> \<not> is_ZodUnion B \<longrightarrow>
        generateSingleSchema (ZodNullable None (ZodUnion None [A, B])) saveIfNew wm this =
          (case map_generateSingleSchema [A, B] saveIfNew this of
             (Inl e, this1) \<Rightarrow> (Inl e, this1)
           | (Inr mapped, this1) \<Rightarrow> (Inr [(''anyOf'', JArr mapped)], this1))"
    unfolding general
    by (simp add: flattenUnionTypes_leaf del: map_generateSingleSchema.simps)
  have string_none: "getMetadata (ZodNullable None (ZodString None)) = None"
    by (simp add: getMetadata_def)
  have string: "generateSingleSchema (ZodNullable None (ZodString None)) saveIfNew wm this
       = (Inr [(''type'', JStr ''string''), (''nullable'', JBool True)], this)"
    unfolding generateSingleSchema_no_metadata [OF string_none]
    by (simp add: omitBy_def isUndefined_def nullable_field_def)
  have appended: "mapNullableOfArray mapped True = mapped @ [JObj [(''nullable'', JBool True)]]"
    by (simp add: mapNullableOfArray_def nullType_def)
  from nullable ignored general leaves string appended show ?thesis
    by (intro conjI)
qed

text \<open>The theorem with a string and a number schema as the members.\<close>

theorem nullable_union_witness:
  "generateSingleSchema (ZodNullable None (ZodUnion None [ZodString None, ZodNumber None []]))
     False True example_generator
     = (Inr [(''anyOf'',
              JArr [JObj [(''type'', JStr ''string'')], JObj [(''type'', JStr ''number'')]])],
        example_generator)
   \<and> generateSingleSchema (ZodNullable None (ZodString None)) False True example_generator
     = (Inr [(''type'', JStr ''string''), (''nullable'', JBool True)], example_generator)
   \<and> mapNullableOfArray [JObj [(''type'', JStr ''string'')], JObj [(''type'', JStr ''number'')]] True
     = [JObj [(''type'', JStr ''string'')], JObj [(''type'', JStr ''number'')],
        JObj [(''nullable'', JBool True)]]"
proof -
  have members:
    "map_generateSingleSchema [ZodString None, ZodNumber None []] False example_generator
     = (Inr [JObj [(''type'', JStr ''string'')], JObj [(''type'', JStr ''number'')]],
        example_generator)"
    by code_simp
  show ?thesis
    using nullable_union
      [of "ZodString None" "ZodNumber None []" None "[]" False False example_generator True
          "[JObj [(''type'', JStr ''string'')], JObj [(''type'', JStr ''number'')]]"]
    by (simp add: members del: map_generateSingleSchema.simps toOpenAPISchema.simps)
qed

text \<open>
  The divergence at a nullable union of a string and a number: the fragment has the single key
  \<open>anyOf\<close>, and is not the object with \<open>nullable: true\<close> beside it that the claim describes.
\<close>

theorem nullable_union_without_marker:
  "fst (generateSingleSchema
          (ZodNullable None (ZodUnion None [ZodString None, ZodNumber None []]))
          False True example_generator)
     = Inr [(''anyOf'',
             JArr [JObj [(''type'', JStr ''string'')], JObj [(''type'', JStr ''number'')]])]
   \<and> fst (generateSingleSchema
          (ZodNullable None (ZodUnion None [ZodString None, ZodNumber None []]))
          False True example_generator)
     \<noteq> Inr [(''anyOf'',
              JArr [JObj [(''type'', JStr ''string'')], JObj [(''type'', JStr ''number'')]]),
            (''nullable'', JBool True)]"
  by code_simp

section \<open>Numeric bounds\<close>

text \<open>
  C3, as amended. Mapping a number schema with the checks \<open>min(0, inclusive)\<close> and
  \<open>max(10, exclusive)\<close> yields exactly \<open>{type: "number", minimum: 0, maximum: 10}\<close>: the
  mapper reads the two bounds only, so the object has no \<open>exclusiveMinimum\<close> key (and no
  \<open>exclusiveMaximum\<close> key). \<open>getNumberChecks\<close> of the OpenAPI 3.0 specifics, on the same
  checks, yields exactly \<open>{minimum: 0, maximum: 10, exclusiveMaximum: true}\<close>.
\<close>

theorem number_bounds:
  "generateSingleSchema (ZodNumber None [CheckMin 0 True, CheckMax 10 False]) saveIfNew wm this
     = (Inr [(''type'', JStr ''number''), (''minimum'', JNum 0), (''maximum'', JNum 10)], this)
   \<and> getNumberChecks [CheckMin 0 True, CheckMax 10 False]
     = [(''minimum'', JNum 0), (''maximum'', JNum 10), (''exclusiveMaximum'', JBool True)]"
proof
  have none: "getMetadata (ZodNumber None [CheckMin 0 True, CheckMax 10 False]) = None"
    by (simp add: getMetadata_def)
  show "generateSingleSchema (ZodNumber None [CheckMin 0 True, CheckMax 10 False]) saveIfNew wm this
     = (Inr [(''type'', JStr ''number''), (''minimum'', JNum 0), (''maximum'', JNum 10)], this)"
    unfolding generateSingleSchema_no_metadata [OF none]
    by (simp add: omitBy_def isUndefined_def num_or_undefined_def nullable_field_def)
next
  show "getNumberChecks [CheckMin 0 True, CheckMax 10 False]
     = [(''minimum'', JNum 0), (''maximum'', JNum 10), (''exclusiveMaximum'', JBool True)]"
    by (simp add: getNumberChecks_def assign_def)
qed

theorem number_bounds_witness:
  "fst (generateSingleSchema (ZodNumber None [CheckMin 0 True, CheckMax 10 False]) True True
          user_generator)
     = Inr [(''type'', JStr ''number''), (''minimum'', JNum 0), (''maximum'', JNum 10)]
   \<and> map fst (getNumberChecks [CheckMin 0 True, CheckMax 10 False])
     = [''minimum'', ''maximum'', ''exclusiveMaximum'']"
  using number_bounds [of True True user_generator] by simp

text \<open>
  The claim as stated fails: the mapper's object for this schema is not the one with
  \<open>exclusiveMaximum: true\<close>.
\<close>

theorem number_bounds_without_exclusive:
  "fst (generateSingleSchema (ZodNumber None [CheckMin 0 True, CheckMax 10 False]) False True
          example_generator)
     = Inr [(''type'', JStr ''number''), (''minimum'', JNum 0), (''maximum'', JNum 10)]
   \<and> fst (generateSingleSchema (ZodNumber None [CheckMin 0 True, CheckMax 10 False]) False True
          example_generator)
     \<noteq> Inr [(''type'', JStr ''number''), (''minimum'', JNum 0), (''maximum'', JNum 10),
            (''exclusiveMaximum'', JBool True)]"
  by code_simp

section \<open>Native enums\<close>

text \<open>
  C8, as amended. Mapping a native-enum schema yields a fragment with type \<open>"string"\<close> whose
  \<open>enum\<close> list is the list of the enum object's values as they are (\<open>Object.values\<close>): a
  numeric member value stays a number in the emitted list.
\<close>

theorem native_enum_values:
  "toOpenAPISchema (ZodNativeEnum m vals) nullable hasOpenAPIType saveIfNew this
     = (Inr [(''type'', JStr ''string''), (''nullable'', nullable_field nullable),
             (''enum'', JArr (Object_values vals))], this)
   \<and> generateSingleSchema (ZodNativeEnum None vals) saveIfNew wm this
     = (Inr [(''type'', JStr ''string''), (''enum'', JArr (map snd vals))], this)"
proof
  show "toOpenAPISchema (ZodNativeEnum m vals) nullable hasOpenAPIType saveIfNew this
     = (Inr [(''type'', JStr ''string''), (''nullable'', nullable_field nullable),
             (''enum'', JArr (Object_values vals))], this)"
    by simp
next
  have none: "getMetadata (ZodNativeEnum None vals) = None"
    by (simp add: getMetadata_def)
  show "generateSingleSchema (ZodNativeEnum None vals) saveIfNew wm this
     = (Inr [(''type'', JStr ''string''), (''enum'', JArr (map snd vals))], this)"
    unfolding generateSingleSchema_no_metadata [OF none]
    by (simp add: omitBy_def isUndefined_def nullable_field_def Object_values_def)
qed

theorem native_enum_values_witness:
  "generateSingleSchema (ZodNativeEnum None [(''Up'', JStr ''UP''), (''Down'', JStr ''DOWN'')])
     False True example_generator
     = (Inr [(''type'', JStr ''string''), (''enum'', JArr [JStr ''UP'', JStr ''DOWN''])],
        example_generator)"
  using native_enum_values
    [of None "[(''Up'', JStr ''UP''), (''Down'', JStr ''DOWN'')]" False False False
        example_generator True]
  by simp

text \<open>
  The claim as stated fails on a numeric enum. The enum object of \<open>enum Color { Red }\<close> is
  \<open>{0: "Red", Red: 0}\<close>; the emitted list holds the number \<open>0\<close>, not the string \<open>"0"\<close>.
\<close>

theorem native_enum_number_kept:
  "fst (generateSingleSchema (ZodNativeEnum None [(''0'', JStr ''Red''), (''Red'', JNum 0)])
          False True example_generator)
     = Inr [(''type'', JStr ''string''), (''enum'', JArr [JStr ''Red'', JNum 0])]
   \<and> fst (generateSingleSchema (ZodNativeEnum None [(''0'', JStr ''Red''), (''Red'', JNum 0)])
          False True example_generator)
     \<noteq> Inr [(''type'', JStr ''string''), (''enum'', JArr [JStr ''Red'', JStr ''0''])]"
  by code_simp

section \<open>The name of a parameter\<close>

text \<open>The name a parameter resolves to: \<open>externalName ?? metadata?.name\<close>.\<close>

definition resolved_name :: "string option \<Rightarrow> ZodType \<Rightarrow> string option" where
  "resolved_name externalName zodSchema =
     (case externalName of Some n \<Rightarrow> Some n | None \<Rightarrow> metadata_name (getMetadata zodSchema))"

lemma map_of_assign_other:
  "k \<notin> fst ` set b \<Longrightarrow> map_of (assign a b) k = map_of a k"
  unfolding assign_def
  by (induction b arbitrary: a) (auto simp: update_conv')

lemma get_prop_assign_other:
  "k \<notin> fst ` set b \<Longrightarrow> get_prop (assign a b) k = get_prop a k"
  by (simp add: get_prop_def map_of_assign_other)

lemma buildMetadata_no_name: "''name'' \<notin> fst ` set (buildMetadata m)"
  by (auto simp: buildMetadata_def omitBy_def omit_def)

lemma generateSingleParameter_unnamed:
  "resolved_name ext z = None \<or> resolved_name ext z = Some [] \<Longrightarrow>
   generateSingleParameter z loc saveIfNew ext this = (Inl UnnamedParameter, this)"
  by (auto simp: generateSingleParameter_def resolved_name_def Let_def split: option.splits)

lemma generateSingleParameter_named:
  assumes "resolved_name ext z = Some n" and "n \<noteq> []"
  shows "case fst (generateSingleParameter z loc saveIfNew ext this) of
           Inl e \<Rightarrow> e = UnsupportedSchemaKind
         | Inr r \<Rightarrow> r = parameter_ref n \<or> get_prop r ''name'' = JStr n"
proof (cases "has_entry (paramRefs this) n")
  case True
  with assms show ?thesis
    by (auto simp: generateSingleParameter_def resolved_name_def Let_def split: option.splits)
next
  case False
  obtain res this1 where call: "generateSingleSchema z False False this = (res, this1)"
    by (cases "generateSingleSchema z False False this")
  show ?thesis
  proof (cases res)
    case (Inl e)
    with call have "e = UnsupportedSchemaKind"
      using only_unsupported(1) [of z False False this e] by simp
    with assms False call Inl show ?thesis
      by (auto simp: generateSingleParameter_def resolved_name_def Let_def split: option.splits)
  next
    case (Inr schema)
    define base where "base =
      [(''in'', JStr (location_string loc)), (''name'', JStr n), (''schema'', JObj schema),
       (''required'', JBool (\<not> isOptional z \<and> \<not> isNullable z))]"
    define extra where "extra = (case getMetadata z of Some m \<Rightarrow> buildMetadata m | None \<Rightarrow> [])"
    have result: "fst (generateSingleParameter z loc saveIfNew ext this) = Inr (assign base extra)"
      using assms False call Inr
      by (auto simp: generateSingleParameter_def resolved_name_def Let_def base_def extra_def
          split: option.splits)
    have "''name'' \<notin> fst ` set extra"
      by (cases "getMetadata z") (simp_all add: extra_def buildMetadata_no_name)
    then have "get_prop (assign base extra) ''name'' = get_prop base ''name''"
      by (rule get_prop_assign_other)
    also have "\<dots> = JStr n"
      by (simp add: base_def get_prop_def)
    finally show ?thesis
      by (simp add: result)
  qed
qed

text \<open>
  C7, as amended. Mapping a schema as a parameter throws the missing-parameter-name error
  exactly when the resolved name, which is \<open>externalName\<close> if given and else the name of the
  schema's resolved metadata, is missing or is the empty string. With a non-empty resolved
  name no such error is raised (the only error left is the unsupported schema kind), and the
  result is the reference to the parameter registered under that name or a parameter object
  whose \<open>name\<close> is that name.
\<close>

theorem parameter_name_resolution:
  "(fst (generateSingleParameter z loc saveIfNew ext this) = Inl UnnamedParameter)
     = (resolved_name ext z = None \<or> resolved_name ext z = Some [])
   \<and> (\<forall>n. resolved_name ext z = Some n \<and> n \<noteq> [] \<longrightarrow>
         (case fst (generateSingleParameter z loc saveIfNew ext this) of
            Inl e \<Rightarrow> e = UnsupportedSchemaKind
          | Inr r \<Rightarrow> r = parameter_ref n \<or> get_prop r ''name'' = JStr n))"
proof (intro conjI allI impI)
  show "(fst (generateSingleParameter z loc saveIfNew ext this) = Inl UnnamedParameter)
     = (resolved_name ext z = None \<or> resolved_name ext z = Some [])"
  proof
    assume thrown: "fst (generateSingleParameter z loc saveIfNew ext this) = Inl UnnamedParameter"
    show "resolved_name ext z = None \<or> resolved_name ext z = Some []"
    proof (rule ccontr)
      assume "\<not> (resolved_name ext z = None \<or> resolved_name ext z = Some [])"
      then obtain n where "resolved_name ext z = Some n" and "n \<noteq> []"
        by (cases "resolved_name ext z") auto
      from generateSingleParameter_named [OF this, of loc saveIfNew this] thrown
      show False by simp
    qed
  next
    assume "resolved_name ext z = None \<or> resolved_name ext z = Some []"
    then show "fst (generateSingleParameter z loc saveIfNew ext this) = Inl UnnamedParameter"
      by (simp add: generateSingleParameter_unnamed)
  qed
next
  fix n
  assume "resolved_name ext z = Some n \<and> n \<noteq> []"
  then show "case fst (generateSingleParameter z loc saveIfNew ext this) of
            Inl e \<Rightarrow> e = UnsupportedSchemaKind
          | Inr r \<Rightarrow> r = parameter_ref n \<or> get_prop r ''name'' = JStr n"
    using generateSingleParameter_named [of ext z n loc saveIfNew this] by simp
qed

text \<open>The theorem at a string schema named \<open>id\<close> in its metadata, with no external name.\<close>

definition id_schema :: ZodType where
  "id_schema = ZodString (Some [(''name'', JStr ''id''), (''description'', JStr ''The id'')])"

theorem parameter_name_resolution_witness:
  "resolved_name None id_schema = Some ''id''
   \<and> fst (generateSingleParameter id_schema Path False None example_generator)
       \<noteq> Inl UnnamedParameter
   \<and> fst (generateSingleParameter id_schema Path False None example_generator)
       = Inr [(''in'', JStr ''path''), (''name'', JStr ''id''),
              (''schema'', JObj [(''type'', JStr ''string'')]), (''required'', JBool True),
              (''description'', JStr ''The id'')]"
proof -
  have resolved: "resolved_name None id_schema = Some ''id''"
    by (simp add: resolved_name_def id_schema_def getMetadata_def metadata_name_def opt_prop_def
        get_prop_def)
  have result: "fst (generateSingleParameter id_schema Path False None example_generator)
       = Inr [(''in'', JStr ''path''), (''name'', JStr ''id''),
              (''schema'', JObj [(''type'', JStr ''string'')]), (''required'', JBool True),
              (''description'', JStr ''The id'')]"
    by code_simp
  show ?thesis
    using parameter_name_resolution [of id_schema Path False None example_generator] resolved
    by (simp add: result)
qed

text \<open>
  The claim as stated fails on an empty name: with the external name \<open>""\<close> the error is
  raised although an external name is given and the metadata has a name.
\<close>

theorem empty_external_name_refused:
  "generateSingleParameter id_schema Path False (Some []) example_generator
     = (Inl UnnamedParameter, example_generator)
   \<and> metadata_name (getMetadata id_schema) = Some ''id''"
  by code_simp

section \<open>Errors of the assembler\<close>

text \<open>
  What a definition can throw: a parameter without a name, a schema of an unsupported kind.
  The missing configuration is thrown by \<open>generateDocs\<close> alone.
\<close>

lemma generateSingleSchema_error:
  "generateSingleSchema z saveIfNew wm this = (Inl e, this1) \<Longrightarrow> e = UnsupportedSchemaKind"
  using only_unsupported(1) [of z saveIfNew wm this e] by simp

lemma generateSingleParameter_error:
  assumes "generateSingleParameter z loc saveIfNew ext this = (Inl e, this1)"
  shows "e = UnnamedParameter \<or> e = UnsupportedSchemaKind"
proof (cases "resolved_name ext z = None \<or> resolved_name ext z = Some []")
  case True
  with assms show ?thesis
    by (simp add: generateSingleParameter_unnamed)
next
  case False
  then obtain n where "resolved_name ext z = Some n" and "n \<noteq> []"
    by (cases "resolved_name ext z") auto
  from generateSingleParameter_named [OF this, of loc saveIfNew this] assms
  show ?thesis by simp
qed

lemma params_of_shape_error:
  "params_of_shape ps loc this = (Inl e, this') \<Longrightarrow> e \<noteq> ConfigMissing"
  by (induction ps arbitrary: this)
     (auto split: prod.splits sum.splits dest: generateSingleParameter_error)

lemma params_of_headers_error:
  "params_of_headers hs this = (Inl e, this') \<Longrightarrow> e \<noteq> ConfigMissing"
  by (induction hs arbitrary: this)
     (auto split: prod.splits sum.splits dest: generateSingleParameter_error)

lemma getParamsByLocation_error:
  "getParamsByLocation s loc this = (Inl e, this') \<Longrightarrow> e \<noteq> ConfigMissing"
  by (induction s loc this rule: getParamsByLocation.induct)
     (auto split: prod.splits sum.splits dest: params_of_shape_error)

lemma getParameters_error:
  "getParameters req this = (Inl e, this') \<Longrightarrow> e \<noteq> ConfigMissing"
  unfolding getParameters_def
  by (auto split: option.splits prod.splits sum.splits
      dest: getParamsByLocation_error params_of_headers_error)

lemma getBodyDoc_error:
  "getBodyDoc b this = (Inl e, this') \<Longrightarrow> e \<noteq> ConfigMissing"
  unfolding getBodyDoc_def
  by (auto simp: Let_def split: option.splits prod.splits sum.splits
      dest: generateSingleSchema_error)

lemma generateSingleRoute_error:
  "generateSingleRoute route this = (Inl e, this') \<Longrightarrow> e \<noteq> ConfigMissing"
  unfolding generateSingleRoute_def
  by (auto simp: Let_def split: prod.splits sum.splits
      dest: generateSingleSchema_error getParameters_error getBodyDoc_error)

lemma generateSingle_error:
  "generateSingle d this = (Inl e, this') \<Longrightarrow> e \<noteq> ConfigMissing"
  by (cases d) (auto dest: generateSingleSchema_error generateSingleParameter_error
      generateSingleRoute_error)

lemma forEach_generateSingle_error:
  "forEach_generateSingle ds this = (Inl e, this') \<Longrightarrow> e \<noteq> ConfigMissing"
  by (induction ds arbitrary: this)
     (auto split: prod.splits sum.splits dest: generateSingle_error)

text \<open>
  C5. On a generator constructed without a document configuration, \<open>generateDocs\<close> throws
  the missing-configuration error and returns the generator as it was: no definition has been
  processed. \<open>generateComponents\<close> on the same generator never throws that error, and when
  every definition is processed without a throw it returns \<open>{components: {schemas,
  parameters}}\<close> holding the two registries.
\<close>

theorem config_needed_for_docs_only:
  "config this = None \<longrightarrow>
     generateDocs this = (Inl ConfigMissing, this)
     \<and> fst (generateComponents this) \<noteq> Inl ConfigMissing
     \<and> (\<forall>this1. forEach_generateSingle (definitions this) this = (Inr (), this1) \<longrightarrow>
           generateComponents this =
             (Inr [(''components'',
                    JObj [(''schemas'', registry_value (schemaRefs this1)),
                          (''parameters'', registry_value (paramRefs this1))])],
              this1))"
proof (intro impI conjI allI)
  assume "config this = None"
  then show "generateDocs this = (Inl ConfigMissing, this)"
    by (simp add: generateDocs_def)
next
  obtain res this1 where run: "forEach_generateSingle (definitions this) this = (res, this1)"
    by (cases "forEach_generateSingle (definitions this) this")
  show "fst (generateComponents this) \<noteq> Inl ConfigMissing"
  proof (cases res)
    case (Inl e)
    with run have "e \<noteq> ConfigMissing"
      using forEach_generateSingle_error [of "definitions this" this e this1] by simp
    with run Inl show ?thesis
      by (simp add: generateComponents_def)
  next
    case (Inr u)
    with run show ?thesis
      by (simp add: generateComponents_def)
  qed
next
  fix this1
  assume "forEach_generateSingle (definitions this) this = (Inr (), this1)"
  then show "generateComponents this =
             (Inr [(''components'',
                    JObj [(''schemas'', registry_value (schemaRefs this1)),
                          (''parameters'', registry_value (paramRefs this1))])],
              this1)"
    by (simp add: generateComponents_def components_of_def)
qed

text \<open>
  The theorem at a generator built without a configuration from a schema definition and a
  parameter definition.
\<close>

definition components_only_generator :: OpenAPIGenerator where
  "components_only_generator =
     new_OpenAPIGenerator [SchemaDef user_object, ParameterDef Path id_schema] None"

definition components_only_generator_done :: OpenAPIGenerator where
  "components_only_generator_done =
     components_only_generator
       \<lparr>schemaRefs :=
          [(''User'',
            [(''type'', JStr ''object''),
             (''properties'', JObj [(''age'', JObj [(''type'', JStr ''number'')])]),
             (''required'', JArr [JStr ''age''])])],
        paramRefs :=
          [(''id'',
            [(''in'', JStr ''path''), (''name'', JStr ''id''),
             (''schema'', JObj [(''type'', JStr ''string'')]), (''required'', JBool True),
             (''description'', JStr ''The id'')])]\<rparr>"

theorem config_needed_for_docs_only_witness:
  "generateDocs components_only_generator = (Inl ConfigMissing, components_only_generator)
   \<and> generateComponents components_only_generator =
       (Inr [(''components'',
              JObj [(''schemas'', registry_value (schemaRefs components_only_generator_done)),
                    (''parameters'', registry_value (paramRefs components_only_generator_done))])],
        components_only_generator_done)"
proof -
  have no_config: "config components_only_generator = None"
    by (simp add: components_only_generator_def new_OpenAPIGenerator_def)
  have run: "forEach_generateSingle (definitions components_only_generator)
               components_only_generator
             = (Inr (), components_only_generator_done)"
    by code_simp
  show ?thesis
    using config_needed_for_docs_only [of components_only_generator] no_config run
    by blast
qed

section \<open>Unrecognized schema kinds\<close>



















text \<open>
  The theorem at an optional date schema, once with \<open>type: "string"\<close> in its metadata, and once
  without metadata as the second property of an object that is the second schema definition
  of a document.
\<close>

definition date_schema :: ZodType where
  "date_schema = ZodOptional None (ZodOther None ''ZodDate'')"









text \<open>
  An unrecognized kind below an array in an object property, and one that is a path parameter
  of a route, end the document as well.
\<close>

lemma nested_unrecognized_kind_aborts:
  "fst (generateDocs
          (new_OpenAPIGenerator
             [SchemaDef (ZodObject None [(''at'', ZodArray None date_schema None None)] Strip)]
             (Some [(''openapi'', JStr ''3.0.0'')])))
     = Inl UnsupportedSchemaKind"
  by code_simp

lemma path_parameter_unrecognized_kind_aborts:
  "fst (generateDocs
          (new_OpenAPIGenerator
             [RouteDef
                \<lparr>method = ''get'', path = ''/events/{at}'', description = None, summary = None,
                 request =
                   Some \<lparr>params = Some (ZodObject None [(''at'', date_schema)] Strip),
                         query = None, headers = None, body = None\<rparr>,
                 response = ZodString None\<rparr>]
             (Some [(''openapi'', JStr ''3.0.0'')])))
     = Inl UnsupportedSchemaKind"
  by code_simp

section \<open>Undefined fields\<close>

text \<open>
  \<open>no_undefined_field v\<close>: no object inside the value \<open>v\<close>, at any depth, has a key whose
  value is \<open>undefined\<close>. \<open>passthrough_clean z\<close>: the values that the mapper copies from the
  schema \<open>z\<close> as they are, which are the values of the metadata fields, the literal values and
  the values of the native enums, hold no such object inside (a metadata field may itself be
  \<open>undefined\<close>: \<open>buildMetadata\<close> drops it).
\<close>

fun no_undefined_field :: "jsval \<Rightarrow> bool" where
  "no_undefined_field (JObj ps) =
     list_all (\<lambda>kv. snd kv \<noteq> JUndefined \<and> no_undefined_field (snd kv)) ps"
| "no_undefined_field (JArr xs) = list_all no_undefined_field xs"
| "no_undefined_field v = True"

definition values_clean :: "obj \<Rightarrow> bool" where
  "values_clean ob = list_all (\<lambda>kv. no_undefined_field (snd kv)) ob"

definition metadata_clean :: "obj option \<Rightarrow> bool" where
  "metadata_clean m = (case m of None \<Rightarrow> True | Some ob \<Rightarrow> values_clean ob)"

fun passthrough_clean :: "ZodType \<Rightarrow> bool" where
  "passthrough_clean (ZodLiteral m v) = (metadata_clean m \<and> no_undefined_field v)"
| "passthrough_clean (ZodNativeEnum m vals) = (metadata_clean m \<and> values_clean vals)"
| "passthrough_clean (ZodObject m propTypes uk) =
     (metadata_clean m \<and> list_all (\<lambda>kv. passthrough_clean (snd kv)) propTypes)"
| "passthrough_clean (ZodArray m itemType minLength maxLength) =
     (metadata_clean m \<and> passthrough_clean itemType)"
| "passthrough_clean (ZodUnion m opts) = (metadata_clean m \<and> list_all passthrough_clean opts)"
| "passthrough_clean (ZodIntersection m left right) =
     (metadata_clean m \<and> passthrough_clean left \<and> passthrough_clean right)"
| "passthrough_clean (ZodOptional m z) = (metadata_clean m \<and> passthrough_clean z)"
| "passthrough_clean (ZodNullable m z) = (metadata_clean m \<and> passthrough_clean z)"
| "passthrough_clean z = metadata_clean (openapi z)"

lemma values_clean_update:
  "values_clean al \<Longrightarrow> no_undefined_field v \<Longrightarrow> values_clean (AList.update k v al)"
  unfolding values_clean_def by (induction al) auto

lemma values_clean_assign:
  "values_clean base \<Longrightarrow> values_clean extra \<Longrightarrow> values_clean (assign base extra)"
  unfolding assign_def
proof (induction extra arbitrary: base)
  case Nil
  then show ?case by simp
next
  case (Cons p extra)
  from Cons.prems have "no_undefined_field (snd p)"
    by (simp add: values_clean_def)
  with Cons.prems(1) have "values_clean (AList.update (fst p) (snd p) base)"
    by (rule values_clean_update)
  moreover from Cons.prems have "values_clean extra"
    by (simp add: values_clean_def)
  ultimately show ?case
    using Cons.IH by simp
qed


lemma omitBy_isUndefined_clean:
  "values_clean ob \<Longrightarrow> no_undefined_field (JObj (omitBy ob isUndefined))"
  by (induction ob) (simp_all add: values_clean_def omitBy_def isUndefined_def)

lemma buildMetadata_clean:
  "values_clean md \<Longrightarrow> no_undefined_field (JObj (buildMetadata md))"
  by (induction md) (simp_all add: values_clean_def buildMetadata_def omitBy_def omit_def isNil_def)

lemma fields_clean_values:
  "no_undefined_field (JObj ob) \<Longrightarrow> values_clean ob"
  by (induction ob) (simp_all add: values_clean_def)

lemma passthrough_clean_openapi: "passthrough_clean z \<Longrightarrow> metadata_clean (openapi z)"
  by (cases z) simp_all

lemma passthrough_clean_unwrapOptional:
  "passthrough_clean z \<Longrightarrow> passthrough_clean (unwrapOptional z)"
  by (induction z rule: unwrapOptional.induct) simp_all

lemma passthrough_clean_getMetadata: "passthrough_clean z \<Longrightarrow> metadata_clean (getMetadata z)"
  using passthrough_clean_openapi [of z]
    passthrough_clean_openapi [OF passthrough_clean_unwrapOptional, of z]
  by (cases "openapi z") (simp_all add: getMetadata_def)


lemma passthrough_clean_flattenUnionTypes:
  "passthrough_clean z \<Longrightarrow> list_all passthrough_clean (flattenUnionTypes z)"
proof (induction z rule: flattenUnionTypes.induct)
  case (1 m options)
  then have "\<forall>x \<in> set options. list_all passthrough_clean (flattenUnionTypes x)"
    by (simp add: list_all_iff)
  then show ?case
    by (simp add: list_all_iff)
qed simp_all

lemma passthrough_clean_flattenIntersectionTypes:
  "passthrough_clean z \<Longrightarrow> list_all passthrough_clean (flattenIntersectionTypes z)"
  by (induction z rule: flattenIntersectionTypes.induct) simp_all


lemma metadata_fields_clean:
  "metadata_clean m \<Longrightarrow>
   values_clean (case m of Some md \<Rightarrow> if wm then buildMetadata md else [] | None \<Rightarrow> [])"
proof (cases m)
  case None
  then show ?thesis by (simp add: values_clean_def)
next
  case (Some md)
  assume "metadata_clean m"
  with Some have "values_clean md" by (simp add: metadata_clean_def)
  then have "no_undefined_field (JObj (buildMetadata md))"
    by (rule buildMetadata_clean)
  then have "values_clean (buildMetadata md)"
    by (rule fields_clean_values)
  with Some show ?thesis by (simp add: values_clean_def)
qed

lemma merged_fragment_clean:
  assumes "values_clean fragment" and "passthrough_clean z"
  shows "no_undefined_field (JObj (merged_fragment z wm fragment))"
  unfolding merged_fragment_def
  by (intro omitBy_isUndefined_clean values_clean_assign assms(1) metadata_fields_clean
      passthrough_clean_getMetadata assms(2))

lemma mapper_clean:
  "passthrough_clean z \<Longrightarrow> generateSingleSchema z saveIfNew wm this = (Inr r, this1) \<Longrightarrow>
     no_undefined_field (JObj r)"
  "passthrough_clean z' \<Longrightarrow> toOpenAPISchema z' n h saveIfNew this = (Inr r, this1) \<Longrightarrow>
     values_clean r"
  "list_all passthrough_clean zs \<Longrightarrow> map_generateSingleSchema zs saveIfNew this = (Inr rs, this1) \<Longrightarrow>
     list_all no_undefined_field rs"
  "list_all (\<lambda>kv. passthrough_clean (snd kv)) ps \<Longrightarrow>
     mapValues_generateSingleSchema ps saveIfNew this = (Inr r, this1) \<Longrightarrow>
     no_undefined_field (JObj r)"
proof (induction z saveIfNew wm this and z' n h saveIfNew this and zs saveIfNew this
    and ps saveIfNew this arbitrary: r this1 and r this1 and rs this1 and r this1
    rule: mapper_cases)
  case (schema z saveIfNew wm this)
  show ?case
  proof (cases "registered_name z this")
    case None
    from schema.prems(2) obtain fragment this0 where
      dispatch: "toOpenAPISchema (unwrapOptional z) (isNullable z)
                   (truthy (opt_prop (getMetadata z) ''type'')) saveIfNew this
                 = (Inr fragment, this0)"
      and r: "r = merged_fragment z wm fragment"
      by (auto simp: generateSingleSchema_unregistered [OF None] split: prod.splits sum.splits)
    have "values_clean fragment"
      using schema.IH [OF None passthrough_clean_unwrapOptional [OF schema.prems(1)] dispatch] .
    then show ?thesis
      unfolding r using schema.prems(1) by (rule merged_fragment_clean)
  next
    case (Some n)
    with schema.prems(2) have "r = schema_ref n"
      by (simp add: generateSingleSchema_registered)
    then show ?thesis
      by (simp add: schema_ref_def)
  qed
next
  case (object m propTypes uk n h saveIfNew this)
  then show ?case
    by (auto simp: values_clean_def nullable_field_def list_all_iff split: prod.splits sum.splits)
next
  case (array m itemType minLength maxLength n h saveIfNew this)
  then show ?case
    by (auto simp: values_clean_def num_or_undefined_def split: prod.splits sum.splits option.splits)
next
  case (union m opts n h saveIfNew this)
  from union.prems(1) have "list_all passthrough_clean (flattenUnionTypes (ZodUnion m opts))"
    by (rule passthrough_clean_flattenUnionTypes)
  with union.IH union.prems(2) show ?case
    by (auto simp: values_clean_def split: prod.splits sum.splits simp del: flattenUnionTypes.simps)
next
  case (intersection m left right n h saveIfNew this)
  from intersection.prems(1)
  have "list_all passthrough_clean (flattenIntersectionTypes (ZodIntersection m left right))"
    by (rule passthrough_clean_flattenIntersectionTypes)
  with intersection.IH intersection.prems(2) show ?case
    by (auto simp: values_clean_def split: prod.splits sum.splits
        simp del: flattenIntersectionTypes.simps)
next
  case (map_cons schema rest saveIfNew this)
  then show ?case
    by (auto split: prod.splits sum.splits)
next
  case (values_cons kv rest saveIfNew this)
  then show ?case
    by (auto split: prod.splits sum.splits)
qed (auto simp: values_clean_def nullable_field_def num_or_undefined_def Object_values_def
      list_all_iff split: if_splits option.splits)


lemma fields_defined_update:
  "no_undefined_field (JObj al) \<Longrightarrow> v \<noteq> JUndefined \<Longrightarrow> no_undefined_field v \<Longrightarrow>
   no_undefined_field (JObj (AList.update k v al))"
  by (induction al) simp_all

lemma fields_defined_assign:
  "no_undefined_field (JObj base) \<Longrightarrow> no_undefined_field (JObj extra) \<Longrightarrow>
   no_undefined_field (JObj (assign base extra))"
  unfolding assign_def
proof (induction extra arbitrary: base)
  case Nil
  then show ?case by simp
next
  case (Cons p extra)
  from Cons.prems(2) have "snd p \<noteq> JUndefined" and "no_undefined_field (snd p)"
    and rest: "no_undefined_field (JObj extra)"
    by simp_all
  with Cons.prems(1) have "no_undefined_field (JObj (AList.update (fst p) (snd p) base))"
    by (intro fields_defined_update)
  then have "no_undefined_field
      (JObj (fold (\<lambda>p. AList.update (fst p) (snd p)) extra (AList.update (fst p) (snd p) base)))"
    using rest by (rule Cons.IH)
  then show ?case
    by simp
qed

lemma parameter_clean:
  assumes clean: "passthrough_clean z"
    and call: "generateSingleParameter z loc saveIfNew ext this = (Inr r, this1)"
  shows "no_undefined_field (JObj r)"
proof -
  from call obtain n where name: "resolved_name ext z = Some n" "n \<noteq> []"
    using generateSingleParameter_unnamed [of ext z loc saveIfNew this]
    by (cases "resolved_name ext z") auto
  show ?thesis
  proof (cases "has_entry (paramRefs this) n")
    case True
    with name call have "r = parameter_ref n"
      by (auto simp: generateSingleParameter_def resolved_name_def Let_def split: option.splits)
    then show ?thesis by (simp add: parameter_ref_def)
  next
    case False
    define extra where
      "extra = (case getMetadata z of Some m \<Rightarrow> buildMetadata m | None \<Rightarrow> [])"
    from False name call obtain schema this0 where
      schema: "generateSingleSchema z False False this = (Inr schema, this0)"
      and r: "r = assign
                [(''in'', JStr (location_string loc)), (''name'', JStr n),
                 (''schema'', JObj schema),
                 (''required'', JBool (\<not> isOptional z \<and> \<not> isNullable z))]
                extra"
      by (auto simp: generateSingleParameter_def resolved_name_def Let_def extra_def
          split: option.splits prod.splits sum.splits)
    have "no_undefined_field (JObj schema)"
      using clean schema by (rule mapper_clean(1))
    then have base: "no_undefined_field
        (JObj [(''in'', JStr (location_string loc)), (''name'', JStr n),
               (''schema'', JObj schema),
               (''required'', JBool (\<not> isOptional z \<and> \<not> isNullable z))])"
      by simp
    have "metadata_clean (getMetadata z)"
      using clean by (rule passthrough_clean_getMetadata)
    then have "no_undefined_field (JObj extra)"
    proof (cases "getMetadata z")
      case None
      then show ?thesis by (simp add: extra_def)
    next
      case (Some md)
      assume "metadata_clean (getMetadata z)"
      with Some have "values_clean md" by (simp add: metadata_clean_def)
      then have "no_undefined_field (JObj (buildMetadata md))"
        by (rule buildMetadata_clean)
      with Some show ?thesis by (simp only: extra_def option.case)
    qed
    with base show ?thesis
      unfolding r by (rule fields_defined_assign)
  qed
qed

text \<open>
  C9, as amended. For every schema whose metadata fields, literal values and enum values hold
  no undefined field inside: no object in the fragment that the schema mapper returns, and no
  object in the parameter object that the parameter mapper returns, has a key whose value is
  undefined; a field that does not apply is absent.
\<close>

theorem emitted_fields_defined:
  "passthrough_clean z \<longrightarrow>
     (case fst (generateSingleSchema z saveIfNew wm this) of
        Inl e \<Rightarrow> True
      | Inr fragment \<Rightarrow> no_undefined_field (JObj fragment))
     \<and> (case fst (generateSingleParameter z loc saveIfNew ext this) of
          Inl e \<Rightarrow> True
        | Inr parameter \<Rightarrow> no_undefined_field (JObj parameter))"
proof (intro impI conjI)
  assume clean: "passthrough_clean z"
  show "case fst (generateSingleSchema z saveIfNew wm this) of
        Inl e \<Rightarrow> True
      | Inr fragment \<Rightarrow> no_undefined_field (JObj fragment)"
  proof (cases "generateSingleSchema z saveIfNew wm this")
    case (Pair res this1)
    then show ?thesis
      using mapper_clean(1) [OF clean, of saveIfNew wm this _ this1]
      by (cases res) simp_all
  qed
  show "case fst (generateSingleParameter z loc saveIfNew ext this) of
          Inl e \<Rightarrow> True
        | Inr parameter \<Rightarrow> no_undefined_field (JObj parameter)"
  proof (cases "generateSingleParameter z loc saveIfNew ext this")
    case (Pair res this1)
    then show ?thesis
      using parameter_clean [OF clean, of loc saveIfNew ext this _ this1]
      by (cases res) simp_all
  qed
qed

text \<open>
  The theorem at a nullable object schema whose metadata has an undefined \<open>description\<close>
  and an \<open>example\<close>, mapped as a schema and as a query parameter: both calls return an
  object, and no object in it has an undefined field.
\<close>

definition described_user :: ZodType where
  "described_user =
     ZodNullable None
       (ZodObject (Some [(''name'', JStr ''User''), (''description'', JUndefined),
                         (''example'', JObj [(''age'', JNum 3)])])
          [(''age'', ZodArray None (ZodNumber None []) None (Some 4))] Passthrough)"

theorem emitted_fields_defined_witness:
  "passthrough_clean described_user
   \<and> (case fst (generateSingleSchema described_user True True example_generator) of
        Inl e \<Rightarrow> False
      | Inr fragment \<Rightarrow> no_undefined_field (JObj fragment))
   \<and> (case fst (generateSingleParameter described_user Query True None example_generator) of
        Inl e \<Rightarrow> False
      | Inr parameter \<Rightarrow> no_undefined_field (JObj parameter))"
proof -
  have clean: "passthrough_clean described_user"
    by code_simp
  have schema_returned:
    "\<not> isl (fst (generateSingleSchema described_user True True example_generator))"
    by code_simp
  have parameter_returned:
    "\<not> isl (fst (generateSingleParameter described_user Query True None example_generator))"
    by code_simp
  show ?thesis
    using emitted_fields_defined [of described_user True True example_generator Query None]
      clean schema_returned parameter_returned
    by (auto split: sum.splits)
qed

text \<open>
  The claim as stated fails on routes. The operation object of a route without description,
  summary and request has the keys \<open>description\<close>, \<open>summary\<close> and \<open>requestBody\<close> with the
  value \<open>undefined\<close>, and so has its response; the request body of a schema without
  metadata has an undefined \<open>description\<close>.
\<close>

definition ping_route :: RouteConfig where
  "ping_route =
     \<lparr>method = ''get'', path = ''/ping'', description = None, summary = None, request = None,
      response = ZodObject None [(''ok'', ZodBoolean None)] Strip\<rparr>"

definition ping_document :: obj where
  "ping_document =
     [(''get'',
       JObj
         [(''description'', JUndefined),
          (''summary'', JUndefined),
          (''parameters'', JArr []),
          (''requestBody'', JUndefined),
          (''responses'',
             JObj
               [(''200'',
                 JObj
                   [(''description'', JUndefined),
                    (''content'',
                       JObj
                         [(''application/json'',
                           JObj
                             [(''schema'',
                               JObj
                                 [(''type'', JStr ''object''),
                                  (''properties'',
                                     JObj [(''ok'', JObj [(''type'', JStr ''boolean'')])]),
                                  (''required'', JArr [JStr ''ok''])])])])])])])]"

theorem route_keeps_undefined_fields:
  "fst (generateSingleRoute ping_route example_generator) = Inr ping_document
   \<and> \<not> no_undefined_field (JObj ping_document)
   \<and> fst (getBodyDoc (Some (ZodString None)) example_generator)
     = Inr (JObj [(''description'', JUndefined), (''required'', JBool True),
                  (''content'',
                     JObj [(''application/json'',
                            JObj [(''schema'', JObj [(''type'', JStr ''string'')])])])])"
  by code_simp

end
